theory Spec2Isabelle
  imports Complex_Main
begin

section \<open>Values shared by the services\<close>

text \<open>
  Timestamps (\<^verbatim>\<open>datetime.utcnow()\<close>) are natural numbers supplied by the caller of each
  operation; one operation reads the clock once. Python dictionaries with string keys are
  association lists in insertion order.
\<close>

type_synonym timestamp = nat

datatype pyval = PyNone | PyBool bool | PyInt int | PyStr string | PyTime timestamp

type_synonym pydict = "(string \<times> pyval) list"

text \<open>\<^verbatim>\<open>{**d, **extra}\<close>: a key already present keeps its place and takes the new value.\<close>

fun dict_set :: "pydict \<Rightarrow> string \<Rightarrow> pyval \<Rightarrow> pydict" where
  "dict_set [] k v = [(k, v)]"
| "dict_set ((k', v') # d) k v = (if k' = k then (k, v) # d else (k', v') # dict_set d k v)"

fun dict_update :: "pydict \<Rightarrow> pydict \<Rightarrow> pydict" where
  "dict_update d [] = d"
| "dict_update d ((k, v) # extra) = dict_update (dict_set d k v) extra"

text \<open>\<^verbatim>\<open>sep.join(xs)\<close> and the \<^verbatim>\<open>repr\<close> of a list of plain strings, \<^verbatim>\<open>['a', 'b']\<close>.\<close>

fun join :: "string \<Rightarrow> string list \<Rightarrow> string" where
  "join sep [] = []"
| "join sep [x] = x"
| "join sep (x # y # xs) = x @ sep @ join sep (y # xs)"

definition py_repr_str :: "string \<Rightarrow> string" where
  "py_repr_str x = [CHR 0x27] @ x @ [CHR 0x27]"

definition py_repr_list :: "string list \<Rightarrow> string" where
  "py_repr_list xs = ''['' @ join '', '' (map py_repr_str xs) @ '']''"

section \<open>The model state machine (api/services/model\_state\_machine.py)\<close>

datatype ModelState = INACTIVE | DOWNLOADING | DEPLOYING | ACTIVE | TRAINING | ERROR

datatype ModelEvent =
    DOWNLOAD_STARTED | DOWNLOAD_COMPLETED | DOWNLOAD_FAILED | DOWNLOAD_CANCELLED
  | DEPLOY_STARTED | DEPLOY_COMPLETED | DEPLOY_FAILED | DEPLOY_STOPPED
  | HEALTH_CHECK_FAILED | MANUAL_ERROR_SET | MANUAL_RESET

fun state_value :: "ModelState \<Rightarrow> string" where
  "state_value INACTIVE = ''inactive''"
| "state_value DOWNLOADING = ''downloading''"
| "state_value DEPLOYING = ''deploying''"
| "state_value ACTIVE = ''active''"
| "state_value TRAINING = ''training''"
| "state_value ERROR = ''error''"

fun event_value :: "ModelEvent \<Rightarrow> string" where
  "event_value DOWNLOAD_STARTED = ''download_started''"
| "event_value DOWNLOAD_COMPLETED = ''download_completed''"
| "event_value DOWNLOAD_FAILED = ''download_failed''"
| "event_value DOWNLOAD_CANCELLED = ''download_cancelled''"
| "event_value DEPLOY_STARTED = ''deploy_started''"
| "event_value DEPLOY_COMPLETED = ''deploy_completed''"
| "event_value DEPLOY_FAILED = ''deploy_failed''"
| "event_value DEPLOY_STOPPED = ''deploy_stopped''"
| "event_value HEALTH_CHECK_FAILED = ''health_check_failed''"
| "event_value MANUAL_ERROR_SET = ''manual_error_set''"
| "event_value MANUAL_RESET = ''manual_reset''"

text \<open>
  \<^verbatim>\<open>ModelState(v)\<close> and \<^verbatim>\<open>ModelEvent(v)\<close> look a member up by its value and raise
  \<^verbatim>\<open>ValueError\<close> when there is none: \<open>None\<close> here.
\<close>

definition ModelState_of_value :: "string \<Rightarrow> ModelState option" where
  "ModelState_of_value v =
     find (\<lambda>st. state_value st = v) [INACTIVE, DOWNLOADING, DEPLOYING, ACTIVE, TRAINING, ERROR]"

definition ModelEvent_of_value :: "string \<Rightarrow> ModelEvent option" where
  "ModelEvent_of_value v =
     find (\<lambda>ev. event_value ev = v)
       [DOWNLOAD_STARTED, DOWNLOAD_COMPLETED, DOWNLOAD_FAILED, DOWNLOAD_CANCELLED,
        DEPLOY_STARTED, DEPLOY_COMPLETED, DEPLOY_FAILED, DEPLOY_STOPPED,
        HEALTH_CHECK_FAILED, MANUAL_ERROR_SET, MANUAL_RESET]"

text \<open>The dictionary \<^verbatim>\<open>TRANSITIONS\<close>, in the order its entries are written.\<close>

definition TRANSITIONS :: "((ModelState \<times> ModelEvent) \<times> ModelState) list" where
  "TRANSITIONS =
    [((INACTIVE, DOWNLOAD_STARTED), DOWNLOADING),
     ((INACTIVE, DEPLOY_STARTED), DEPLOYING),
     ((DOWNLOADING, DOWNLOAD_COMPLETED), INACTIVE),
     ((DOWNLOADING, DOWNLOAD_FAILED), ERROR),
     ((DOWNLOADING, DOWNLOAD_CANCELLED), INACTIVE),
     ((DOWNLOADING, DEPLOY_STARTED), DEPLOYING),
     ((DEPLOYING, DEPLOY_COMPLETED), ACTIVE),
     ((DEPLOYING, DEPLOY_FAILED), ERROR),
     ((ACTIVE, DEPLOY_STOPPED), INACTIVE),
     ((ACTIVE, HEALTH_CHECK_FAILED), ERROR),
     ((ACTIVE, DEPLOY_STARTED), DEPLOYING),
     ((ACTIVE, DOWNLOAD_STARTED), DOWNLOADING),
     ((ERROR, DOWNLOAD_STARTED), DOWNLOADING),
     ((ERROR, DEPLOY_STARTED), DEPLOYING),
     ((ERROR, MANUAL_RESET), INACTIVE),
     ((TRAINING, MANUAL_RESET), INACTIVE),
     ((INACTIVE, MANUAL_ERROR_SET), ERROR),
     ((DOWNLOADING, MANUAL_ERROR_SET), ERROR),
     ((DEPLOYING, MANUAL_ERROR_SET), ERROR),
     ((ACTIVE, MANUAL_ERROR_SET), ERROR),
     ((TRAINING, MANUAL_ERROR_SET), ERROR)]"

definition get_valid_transitions :: "ModelState \<Rightarrow> ModelEvent list" where
  "get_valid_transitions current_state =
     map snd (filter (\<lambda>(state, event). state = current_state) (map fst TRANSITIONS))"

definition can_transition :: "ModelState \<Rightarrow> ModelEvent \<Rightarrow> bool" where
  "can_transition current_state event = ((current_state, event) \<in> set (map fst TRANSITIONS))"

definition get_next_state :: "ModelState \<Rightarrow> ModelEvent \<Rightarrow> ModelState option" where
  "get_next_state current_state event = map_of TRANSITIONS (current_state, event)"

subsection \<open>Stored rows, the event queue and the environment\<close>

text \<open>
  A row of table \<^verbatim>\<open>models\<close> (primary key \<^verbatim>\<open>id\<close>), with the columns the state machine
  reads and writes. \<^verbatim>\<open>status\<close> is a nullable string.
\<close>

record Model =
  m_source :: string
  m_status :: "string option"
  m_updated_at :: timestamp

text \<open>The dictionary \<^verbatim>\<open>change_info\<close> that \<^verbatim>\<open>_record_state_change\<close> writes out.\<close>

record change_info =
  ci_model_id :: string
  ci_model_source :: string
  ci_old_status :: "string option"
  ci_new_status :: string
  ci_event :: string
  ci_event_data :: "pydict option"
  ci_timestamp :: timestamp

text \<open>
  The four display texts of \<^verbatim>\<open>lastUpdated\<close> (Chinese string literals in the source) and
  the event that \<^verbatim>\<open>push_model_status\<close> puts on the model-status queue.
\<close>

datatype last_updated = Text_downloading | Text_deploying | Text_training | Text_just_now

record model_status =
  ms_id :: string
  ms_name :: string
  ms_status :: string
  ms_lastUpdated :: last_updated

record model_status_event =
  ev_models :: "model_status list"
  ev_timestamp :: timestamp
  ev_interval :: int

text \<open>
  An exception with its \<^verbatim>\<open>str\<close>: SQLAlchemy's \<^verbatim>\<open>IntegrityError\<close>, which
  \<^verbatim>\<open>transition\<close> handles apart, or any other.
\<close>

datatype exc = IntegrityError string | OtherException string

text \<open>
  What the surroundings decide during one call: the clock, whether
  \<^verbatim>\<open>db.session.commit()\<close> raises, and whether \<^verbatim>\<open>push_model_status\<close> raises.
\<close>

record sm_env =
  now :: timestamp
  commit_exc :: "exc option"
  push_exc :: "string option"

text \<open>
  A row of table \<^verbatim>\<open>download_tasks\<close>. \<open>t_progress\<close> and \<open>t_download_speed\<close> are the
  decimal values that their \<^verbatim>\<open>DECIMAL\<close> columns hold.
\<close>

record DownloadTask =
  t_id :: string
  t_model_id :: string
  t_model_source :: string
  t_status :: string
  t_progress :: real
  t_download_size :: int
  t_total_size :: "int option"
  t_download_speed :: "real option"
  t_file_path :: "string option"
  t_created_at :: "timestamp option"
  t_updated_at :: "timestamp option"
  t_started_at :: "timestamp option"
  t_completed_at :: "timestamp option"

text \<open>
  A row of table \<^verbatim>\<open>deployments\<close>, with the columns the modelled operations read or
  write, and the part of the \<^verbatim>\<open>config\<close> dictionary that \<^verbatim>\<open>create_deployment\<close> reads.
\<close>

record deploy_config =
  cfg_port :: "int option"
  cfg_host :: "string option"

record Deployment =
  d_id :: string
  d_model_id :: string
  d_model_source :: string
  d_name :: string
  d_status :: string
  d_port :: "int option"
  d_host :: "string option"
  d_container_id :: "string option"
  d_config :: deploy_config
  d_health_status :: "string option"
  d_last_health_check :: "timestamp option"
  d_created_at :: "timestamp option"
  d_updated_at :: "timestamp option"

text \<open>
  What is at a path that \<^verbatim>\<open>os.path.exists\<close> finds: a regular file, a directory, a
  symbolic link to a file or to a directory (\<^verbatim>\<open>isfile\<close> and \<^verbatim>\<open>isdir\<close> follow links),
  or something else.
\<close>

datatype fkind = File | Dir | Link_to_file | Link_to_dir | Special

text \<open>
  The state the program works on: the three tables (the rows of \<^verbatim>\<open>download_tasks\<close> and
  \<^verbatim>\<open>deployments\<close> in storage order, which is the order an unordered query returns them
  in), the file system as a map from normalised absolute paths, the state-change history
  (the records of \<^verbatim>\<open>_record_state_change\<close>, which the source writes to its log), the
  model-status queue of the event bus, the messages of \<^verbatim>\<open>logger.error\<close>, and
  \<open>raised\<close>, the calls of \<^verbatim>\<open>trigger_model_event\<close> in order. The program keeps no list
  of raised events; the field is the observation that an event was raised.
\<close>

record state =
  models :: "string \<rightharpoonup> Model"
  tasks :: "DownloadTask list"
  deployments :: "Deployment list"
  fs :: "string \<rightharpoonup> fkind"
  history :: "change_info list"
  status_queue :: "model_status_event list"
  error_log :: "string list"
  raised :: "(string \<times> string \<times> string) list"

definition Model_query :: "state \<Rightarrow> string \<Rightarrow> string \<Rightarrow> Model option" where
  "Model_query s model_id model_source =
     (case models s model_id of
        None \<Rightarrow> None
      | Some model \<Rightarrow> if m_source model = model_source then Some model else None)"

text \<open>
  Lines 136 to 140 of \<^verbatim>\<open>transition\<close> (and 251 to 255 of \<^verbatim>\<open>get_model_state\<close>): a null or
  empty status, or one that is no state's value, reads as \<open>INACTIVE\<close>.
\<close>

definition read_current_state :: "string option \<Rightarrow> ModelState" where
  "read_current_state st =
     (case st of
        None \<Rightarrow> INACTIVE
      | Some v \<Rightarrow>
          if v = [] then INACTIVE
          else (case ModelState_of_value v of Some cs \<Rightarrow> cs | None \<Rightarrow> INACTIVE))"

definition record_state_change ::
  "sm_env \<Rightarrow> state \<Rightarrow> string \<Rightarrow> string \<Rightarrow> string option \<Rightarrow> string \<Rightarrow> ModelEvent \<Rightarrow>
   pydict option \<Rightarrow> state" where
  "record_state_change env s model_id model_source old_status new_status event event_data =
     s\<lparr>history := history s @
        [\<lparr>ci_model_id = model_id, ci_model_source = model_source,
          ci_old_status = old_status, ci_new_status = new_status,
          ci_event = event_value event, ci_event_data = event_data,
          ci_timestamp = now env\<rparr>]\<rparr>"

text \<open>\<^verbatim>\<open>model_id.split('/')[-1] if '/' in model_id else model_id\<close>\<close>

definition model_name_of :: "string \<Rightarrow> string" where
  "model_name_of model_id =
     (if CHR ''/'' \<in> set model_id
      then rev (takeWhile (\<lambda>c. c \<noteq> CHR ''/'') (rev model_id))
      else model_id)"

definition last_updated_text :: "string \<Rightarrow> last_updated" where
  "last_updated_text new_status =
     (if new_status = ''downloading'' then Text_downloading
      else if new_status = ''deploying'' then Text_deploying
      else if new_status = ''training'' then Text_training
      else Text_just_now)"

text \<open>
  \<^verbatim>\<open>_notify_state_change\<close>: the whole body stands in \<^verbatim>\<open>try ... except Exception\<close>, so an
  exception of the push is logged and goes no further.
\<close>

definition notify_state_change ::
  "sm_env \<Rightarrow> state \<Rightarrow> string \<Rightarrow> string \<Rightarrow> string option \<Rightarrow> string \<Rightarrow> state" where
  "notify_state_change env s model_id model_source old_status new_status =
     (case push_exc env of
        None \<Rightarrow>
          s\<lparr>status_queue := status_queue s @
            [\<lparr>ev_models =
                [\<lparr>ms_id = model_id, ms_name = model_name_of model_id,
                  ms_status = new_status, ms_lastUpdated = last_updated_text new_status\<rparr>],
              ev_timestamp = now env, ev_interval = 0\<rparr>]\<rparr>
      | Some e \<Rightarrow>
          s\<lparr>error_log := error_log s @ [''Failed to notify state change: '' @ e]\<rparr>)"

text \<open>
  The block under \<^verbatim>\<open>with cls._atomic_transaction()\<close> of \<^verbatim>\<open>transition\<close>. \<open>Inr\<close> is the
  value of a \<^verbatim>\<open>return\<close>, \<open>Inl\<close> an exception raised in the block (\<^verbatim>\<open>new_state.value\<close> of
  a \<^verbatim>\<open>None\<close>).
\<close>

definition transition_block ::
  "sm_env \<Rightarrow> state \<Rightarrow> string \<Rightarrow> string \<Rightarrow> ModelEvent \<Rightarrow> pydict option \<Rightarrow> bool \<Rightarrow>
   (exc + bool \<times> string option) \<times> state" where
  "transition_block env s model_id model_source event event_data auto_notify =
     (case Model_query s model_id model_source of
        None \<Rightarrow>
          (Inr (False, Some (''Model not found: '' @ model_id @ '' ('' @ model_source @ '')'')), s)
      | Some model \<Rightarrow>
          let current_state = read_current_state (m_status model) in
          if \<not> can_transition current_state event then
            (Inr (False, Some (''Invalid transition: '' @ state_value current_state @ '' -> '' @
                    event_value event @ ''. Valid events: '' @
                    py_repr_list (map event_value (get_valid_transitions current_state)))), s)
          else
            (case get_next_state current_state event of
               None \<Rightarrow>
                 (Inl (OtherException
                    ([CHR 0x27] @ ''NoneType'' @ [CHR 0x27] @ '' object has no attribute '' @
                     [CHR 0x27] @ ''value'' @ [CHR 0x27])), s)
             | Some new_state \<Rightarrow>
                 if current_state \<noteq> new_state then
                   let old_status = m_status model;
                       s1 = s\<lparr>models := (models s)(model_id \<mapsto>
                              model\<lparr>m_status := Some (state_value new_state),
                                    m_updated_at := now env\<rparr>)\<rparr>;
                       s2 = record_state_change env s1 model_id model_source old_status
                              (state_value new_state) event event_data;
                       s3 = (if auto_notify
                             then notify_state_change env s2 model_id model_source old_status
                                    (state_value new_state)
                             else s2)
                   in (Inr (True, None), s3)
                 else (Inr (True, Some ''Already in target state''), s)))"

text \<open>
  \<^verbatim>\<open>_atomic_transaction\<close>: leaving the block commits; an exception of the block or of the
  commit rolls the session back, which restores the rows as they were before the block
  (history, queue, log and files are not part of the session), and is raised again.
\<close>

definition rollback :: "state \<Rightarrow> state \<Rightarrow> state" where
  "rollback s0 s1 = s1\<lparr>models := models s0, tasks := tasks s0, deployments := deployments s0\<rparr>"

definition atomic_transaction ::
  "sm_env \<Rightarrow> state \<Rightarrow> (exc + 'a) \<times> state \<Rightarrow> (exc + 'a) \<times> state" where
  "atomic_transaction env s0 block =
     (case block of
        (Inl e, s1) \<Rightarrow> (Inl e, rollback s0 s1)
      | (Inr r, s1) \<Rightarrow>
          (case commit_exc env of
             None \<Rightarrow> (Inr r, s1)
           | Some e \<Rightarrow> (Inl e, rollback s0 s1)))"

definition transition ::
  "sm_env \<Rightarrow> state \<Rightarrow> string \<Rightarrow> string \<Rightarrow> ModelEvent \<Rightarrow> pydict option \<Rightarrow> bool \<Rightarrow>
   (bool \<times> string option) \<times> state" where
  "transition env s model_id model_source event event_data auto_notify =
     (case atomic_transaction env s
             (transition_block env s model_id model_source event event_data auto_notify) of
        (Inr r, s') \<Rightarrow> (r, s')
      | (Inl (IntegrityError e), s') \<Rightarrow>
          ((False, Some (''Database integrity error: '' @ e)),
           s'\<lparr>error_log := error_log s' @
                [''Database integrity error during state transition: '' @ e]\<rparr>)
      | (Inl (OtherException e), s') \<Rightarrow>
          ((False, Some (''State transition failed: '' @ e)),
           s'\<lparr>error_log := error_log s' @ [''Failed to transition model state: '' @ e]\<rparr>))"

definition get_model_state :: "state \<Rightarrow> string \<Rightarrow> string \<Rightarrow> ModelState option" where
  "get_model_state s model_id model_source =
     (case Model_query s model_id model_source of
        None \<Rightarrow> None
      | Some model \<Rightarrow> Some (read_current_state (m_status model)))"

definition force_state_block ::
  "sm_env \<Rightarrow> state \<Rightarrow> string \<Rightarrow> string \<Rightarrow> ModelState \<Rightarrow> bool \<Rightarrow>
   (exc + bool \<times> string option) \<times> state" where
  "force_state_block env s model_id model_source target_state auto_notify =
     (case Model_query s model_id model_source of
        None \<Rightarrow>
          (Inr (False, Some (''Model not found: '' @ model_id @ '' ('' @ model_source @ '')'')), s)
      | Some model \<Rightarrow>
          let old_status = m_status model;
              s1 = s\<lparr>models := (models s)(model_id \<mapsto>
                     model\<lparr>m_status := Some (state_value target_state),
                           m_updated_at := now env\<rparr>)\<rparr>;
              s2 = record_state_change env s1 model_id model_source old_status
                     (state_value target_state) MANUAL_RESET
                     (Some [(''force_set'', PyBool True)]);
              s3 = (if auto_notify
                    then notify_state_change env s2 model_id model_source old_status
                           (state_value target_state)
                    else s2)
          in (Inr (True, None), s3))"

definition force_state ::
  "sm_env \<Rightarrow> state \<Rightarrow> string \<Rightarrow> string \<Rightarrow> ModelState \<Rightarrow> bool \<Rightarrow>
   (bool \<times> string option) \<times> state" where
  "force_state env s model_id model_source target_state auto_notify =
     (case atomic_transaction env s
             (force_state_block env s model_id model_source target_state auto_notify) of
        (Inr r, s') \<Rightarrow> (r, s')
      | (Inl e, s') \<Rightarrow>
          (let msg = (case e of IntegrityError m \<Rightarrow> m | OtherException m \<Rightarrow> m) in
           ((False, Some (''Force state failed: '' @ msg)),
            s'\<lparr>error_log := error_log s' @ [''Failed to force model state: '' @ msg]\<rparr>)))"

text \<open>The module's convenience functions, which take the event and the state by value.\<close>

definition trigger_model_event ::
  "sm_env \<Rightarrow> state \<Rightarrow> string \<Rightarrow> string \<Rightarrow> string \<Rightarrow> pydict option \<Rightarrow>
   (bool \<times> string option) \<times> state" where
  "trigger_model_event env s model_id model_source event_name event_data =
     (let s' = s\<lparr>raised := raised s @ [(model_id, model_source, event_name)]\<rparr> in
      case ModelEvent_of_value event_name of
        Some event \<Rightarrow> transition env s' model_id model_source event event_data True
      | None \<Rightarrow>
          ((False, Some (''Unknown event: '' @ event_name)),
           s'\<lparr>error_log := error_log s' @ [''Unknown event: '' @ event_name]\<rparr>))"

definition force_model_state ::
  "sm_env \<Rightarrow> state \<Rightarrow> string \<Rightarrow> string \<Rightarrow> string \<Rightarrow> (bool \<times> string option) \<times> state" where
  "force_model_state env s model_id model_source target_state =
     (case ModelState_of_value target_state of
        Some st \<Rightarrow> force_state env s model_id model_source st True
      | None \<Rightarrow> ((False, Some (''Invalid state: '' @ target_state)), s))"

section \<open>Download tasks (api/models/download\_task.py)\<close>

text \<open>
  The services are modelled with the storage available: the commits of their sessions
  succeed, as do the commits of the transitions they trigger.
\<close>

definition service_env :: "timestamp \<Rightarrow> string option \<Rightarrow> sm_env" where
  "service_env t push = \<lparr>now = t, commit_exc = None, push_exc = push\<rparr>"

text \<open>
  \<^verbatim>\<open>DownloadTask._trigger_state_event\<close>. The result of \<^verbatim>\<open>trigger_model_event\<close> is only
  logged as a warning.
\<close>

definition task_trigger_state_event ::
  "timestamp \<Rightarrow> string option \<Rightarrow> state \<Rightarrow> DownloadTask \<Rightarrow> string \<Rightarrow> pydict \<Rightarrow> state" where
  "task_trigger_state_event t push s task event_name event_data =
     snd (trigger_model_event (service_env t push) s (t_model_id task) (t_model_source task)
            event_name
            (Some (dict_update
               [(''task_id'', PyStr (t_id task)), (''task_type'', PyStr ''download''),
                (''task_status'', PyStr (t_status task))]
               event_data)))"


definition start_download ::
  "timestamp \<Rightarrow> string option \<Rightarrow> state \<Rightarrow> DownloadTask \<Rightarrow> DownloadTask \<times> state" where
  "start_download t push s task =
     (let task' = task\<lparr>t_status := ''downloading'', t_started_at := Some t,
                       t_updated_at := Some t\<rparr>
      in (task', task_trigger_state_event t push s task' ''download_started''
                   [(''started_at'', PyTime t)]))"

definition pause_download :: "timestamp \<Rightarrow> DownloadTask \<Rightarrow> DownloadTask" where
  "pause_download t task = task\<lparr>t_status := ''paused'', t_updated_at := Some t\<rparr>"

definition resume_download ::
  "timestamp \<Rightarrow> string option \<Rightarrow> state \<Rightarrow> DownloadTask \<Rightarrow> DownloadTask \<times> state" where
  "resume_download t push s task =
     (let task' = task\<lparr>t_status := ''downloading'', t_updated_at := Some t\<rparr>
      in (task', task_trigger_state_event t push s task' ''download_started''
                   [(''resumed'', PyBool True)]))"


definition fail_download ::
  "timestamp \<Rightarrow> string option \<Rightarrow> state \<Rightarrow> DownloadTask \<Rightarrow> string option \<Rightarrow>
   DownloadTask \<times> state" where
  "fail_download t push s task error_message =
     (let task' = task\<lparr>t_status := ''failed'', t_updated_at := Some t\<rparr>
      in (task', task_trigger_state_event t push s task' ''download_failed''
                   [(''error_message'', (case error_message of
                                           None \<Rightarrow> PyNone | Some m \<Rightarrow> PyStr m)),
                    (''failed_at'', PyTime t)]))"

definition cancel_download ::
  "timestamp \<Rightarrow> string option \<Rightarrow> state \<Rightarrow> DownloadTask \<Rightarrow> DownloadTask \<times> state" where
  "cancel_download t push s task =
     (let task' = task\<lparr>t_status := ''cancelled'', t_updated_at := Some t\<rparr>
      in (task', task_trigger_state_event t push s task' ''download_cancelled''
                   [(''cancelled_at'', PyTime t)]))"

text \<open>
  \<^verbatim>\<open>DownloadTask.query.get(task_id)\<close>, \<^verbatim>\<open>DownloadTask.get_by_model\<close> (the first row of an
  unordered query) and the write of a changed row back to its place.
\<close>

definition task_get :: "state \<Rightarrow> string \<Rightarrow> DownloadTask option" where
  "task_get s task_id = find (\<lambda>task. t_id task = task_id) (tasks s)"

definition get_by_model :: "state \<Rightarrow> string \<Rightarrow> string \<Rightarrow> DownloadTask option" where
  "get_by_model s model_id model_source =
     find (\<lambda>task. t_model_id task = model_id \<and> t_model_source task = model_source) (tasks s)"

definition task_put :: "state \<Rightarrow> DownloadTask \<Rightarrow> state" where
  "task_put s task = s\<lparr>tasks := map (\<lambda>u. if t_id u = t_id task then task else u) (tasks s)\<rparr>"

section \<open>The download service (api/services/download\_service.py)\<close>

text \<open>
  The exceptions that leave the services: the error classes of
  \<^verbatim>\<open>api/utils/exceptions.py\<close>, and Python's \<^verbatim>\<open>AttributeError\<close> with its text. A message
  is its text, or names one of the Chinese texts of the source with the values it is
  formatted with.
\<close>

datatype message =
    Text string
  | Text_model_missing string
  | Text_name_exists string
  | Text_port_in_use int
  | Text_no_port
  | Text_deployment_missing string
  | Text_model_not_exist string
  | Text_hf_api_error string
  | Text_get_info_failed string

datatype api_error =
    ValidationError message
  | NotFoundError message
  | ConflictError message
  | DownloadError message
  | StorageError message
  | ModelNotFoundError message
  | ExternalServiceError message
  | AttributeError string

text \<open>
  What the HuggingFace hub does when \<^verbatim>\<open>HuggingFaceClient.get_model_info\<close> asks for a
  model: it answers with the model, answers 404 (or with nothing), answers another HTTP
  error, or something else fails. \<open>get_model_info\<close> is the client's method
  (api/integrations/huggingface\_client.py, lines 158 to 183): it returns a dictionary
  that is never empty, \<open>Inr True\<close> here, or raises.
\<close>

datatype hub_outcome = Hub_found | Hub_not_found | Hub_http_error string | Hub_failure string

definition get_model_info :: "(string \<Rightarrow> hub_outcome) \<Rightarrow> string \<Rightarrow> api_error + bool" where
  "get_model_info hub model_id =
     (case hub model_id of
        Hub_found \<Rightarrow> Inr True
      | Hub_not_found \<Rightarrow> Inl (ModelNotFoundError (Text_model_not_exist model_id))
      | Hub_http_error e \<Rightarrow> Inl (ExternalServiceError (Text_hf_api_error e))
      | Hub_failure e \<Rightarrow> Inl (ExternalServiceError (Text_get_info_failed e)))"

text \<open>
  The collaborators of \<^verbatim>\<open>create_download_task\<close>: the hub, the result of
  \<^verbatim>\<open>_resolve_download_path\<close>, the error that \<^verbatim>\<open>_validate_download_path\<close> or
  \<^verbatim>\<open>_check_storage_space\<close> raises (if any), and the identifier \<^verbatim>\<open>uuid.uuid4()\<close> returns.
\<close>

record create_env =
  ce_now :: timestamp
  hub :: "string \<Rightarrow> hub_outcome"
  resolve_download_path :: "string \<Rightarrow> string \<Rightarrow> string"
  validate_download_path :: "string \<Rightarrow> api_error option"
  check_storage_space :: "api_error option"
  new_uuid :: string

text \<open>
  Lines 43 to 53 of \<^verbatim>\<open>create_download_task\<close>, the check of the catalog; \<open>None\<close> when it
  passes. For source \<^verbatim>\<open>ollama\<close> line 49 calls
  \<^verbatim>\<open>self.ollama_client.list_available_models()\<close>, a method that \<^verbatim>\<open>OllamaClient\<close>
  (api/integrations/ollama\_client.py) does not have: the call raises
  \<^verbatim>\<open>AttributeError\<close> for every model.
\<close>

definition validate_model_exists :: "create_env \<Rightarrow> string \<Rightarrow> string \<Rightarrow> api_error option" where
  "validate_model_exists env model_id source =
     (if source = ''huggingface'' then
        (case get_model_info (hub env) model_id of
           Inl err \<Rightarrow> Some err
         | Inr model_info \<Rightarrow>
             if \<not> model_info
             then Some (NotFoundError (Text (''model '' @ model_id @ '' does not exist'')))
             else None)
      else if source = ''ollama'' then
        Some (AttributeError
                ([CHR 0x27] @ ''OllamaClient'' @ [CHR 0x27] @ '' object has no attribute '' @
                 [CHR 0x27] @ ''list_available_models'' @ [CHR 0x27]))
      else Some (ValidationError (Text (''Unsupported model source: '' @ source))))"

text \<open>
  \<^verbatim>\<open>create_download_task\<close>. Every exception is raised again after the rollback, so the
  caller sees the error and no row is added. A new row is stored after the rows that
  exist; its unset columns take their defaults when it is inserted. The directory that
  \<^verbatim>\<open>_validate_download_path\<close> may create is not modelled.
\<close>

definition create_download_task ::
  "create_env \<Rightarrow> state \<Rightarrow> string \<Rightarrow> string \<Rightarrow> (api_error + DownloadTask) \<times> state" where
  "create_download_task env s model_id source =
     (case validate_model_exists env model_id source of
        Some err \<Rightarrow> (Inl err, s)
      | None \<Rightarrow>
        let existing_task = get_by_model s model_id source in
        if (case existing_task of
              Some task \<Rightarrow> t_status task \<in> set [''pending'', ''downloading'']
            | None \<Rightarrow> False)
        then (Inl (ValidationError (Text (''model '' @ model_id @
                '' already has a pending or downloading download task''))), s)
        else
          let download_path = resolve_download_path env model_id source in
          (case validate_download_path env download_path of
             Some err \<Rightarrow> (Inl err, s)
           | None \<Rightarrow>
               (case check_storage_space env of
                  Some err \<Rightarrow> (Inl err, s)
                | None \<Rightarrow>
                    let task = \<lparr>t_id = new_uuid env, t_model_id = model_id,
                                t_model_source = source, t_status = ''pending'',
                                t_progress = 0, t_download_size = 0, t_total_size = None,
                                t_download_speed = None, t_file_path = Some download_path,
                                t_created_at = Some (ce_now env),
                                t_updated_at = Some (ce_now env),
                                t_started_at = None, t_completed_at = None\<rparr>
                    in (Inr task, s\<lparr>tasks := tasks s @ [task]\<rparr>))))"

text \<open>\<^verbatim>\<open>DownloadService.pause_download\<close>; the result is the dictionary it returns.\<close>

definition service_pause_download ::
  "timestamp \<Rightarrow> state \<Rightarrow> string \<Rightarrow> (api_error + pydict) \<times> state" where
  "service_pause_download t s task_id =
     (case task_get s task_id of
        None \<Rightarrow>
          (Inl (NotFoundError (Text (''download task '' @ task_id @ '' does not exist''))), s)
      | Some task \<Rightarrow>
          if t_status task \<noteq> ''downloading'' then
            (Inl (ValidationError (Text (''task status '' @ t_status task @ '' cannot pause''))), s)
          else
            (Inr [(''message'', PyStr ''download has paused''), (''task_id'', PyStr task_id)],
             task_put s (pause_download t task)))"

text \<open>
  The file system: a path below \<open>p\<close> starts with \<open>p\<close> and a slash. A removal may
  fail: \<open>os_remove_exc\<close> is the exception \<^verbatim>\<open>os.remove\<close> raises (if any; the path then
  stays), \<open>rmtree_exc\<close> the exception \<^verbatim>\<open>shutil.rmtree\<close> raises on a directory together
  with the file system it leaves behind. Both functions give the exception (if any) and
  the file system after the call. \<^verbatim>\<open>shutil.rmtree\<close> refuses a symbolic link.
\<close>

record removal_env =
  os_remove_exc :: "string option"
  rmtree_exc :: "(string \<times> (string \<rightharpoonup> fkind)) option"

definition is_below :: "string \<Rightarrow> string \<Rightarrow> bool" where
  "is_below p q = (take (length p + 1) q = p @ ''/'')"

definition os_remove ::
  "removal_env \<Rightarrow> (string \<rightharpoonup> fkind) \<Rightarrow> string \<Rightarrow> string option \<times> (string \<rightharpoonup> fkind)" where
  "os_remove env f p =
     (case os_remove_exc env of
        None \<Rightarrow> (None, f(p := None))
      | Some e \<Rightarrow> (Some e, f))"

definition shutil_rmtree ::
  "removal_env \<Rightarrow> (string \<rightharpoonup> fkind) \<Rightarrow> string \<Rightarrow> string option \<times> (string \<rightharpoonup> fkind)" where
  "shutil_rmtree env f p =
     (if f p = Some Link_to_dir then (Some ''Cannot call rmtree on a symbolic link'', f)
      else (case rmtree_exc env of
              None \<Rightarrow> (None, (\<lambda>q. if q = p \<or> is_below p q then None else f q))
            | Some (e, left) \<Rightarrow> (Some e, left)))"

text \<open>
  Lines 190 to 198 of \<^verbatim>\<open>cancel_download\<close>: the removal of what was downloaded so far.
  The handler of line 197 logs a warning for an exception of the removal and goes on.
\<close>

definition remove_download_files :: "removal_env \<Rightarrow> state \<Rightarrow> string option \<Rightarrow> state" where
  "remove_download_files env s file_path =
     (case file_path of
        None \<Rightarrow> s
      | Some p \<Rightarrow>
          if p = [] then s
          else (case fs s p of
                  None \<Rightarrow> s
                | Some kind \<Rightarrow>
                    if kind = File \<or> kind = Link_to_file
                    then s\<lparr>fs := snd (os_remove env (fs s) p)\<rparr>
                    else if kind = Dir \<or> kind = Link_to_dir
                    then s\<lparr>fs := snd (shutil_rmtree env (fs s) p)\<rparr>
                    else s))"

text \<open>
  \<^verbatim>\<open>DownloadService.cancel_download\<close>. The task's method changes the row and raises the
  event; the state machine does not read the table of tasks, so the changed row is
  written to the table after the event is handled.
\<close>

definition service_cancel_download ::
  "timestamp \<Rightarrow> string option \<Rightarrow> removal_env \<Rightarrow> state \<Rightarrow> string \<Rightarrow>
   (api_error + pydict) \<times> state" where
  "service_cancel_download t push env s task_id =
     (case task_get s task_id of
        None \<Rightarrow>
          (Inl (NotFoundError (Text (''download task '' @ task_id @ '' does not exist''))), s)
      | Some task \<Rightarrow>
          if t_status task \<in> set [''completed'', ''cancelled''] then
            (Inl (ValidationError (Text (''task status '' @ t_status task @ '' cannot cancel''))), s)
          else
            let (task', s1) = cancel_download t push s task;
                s2 = task_put s1 task';
                s3 = remove_download_files env s2 (t_file_path task')
            in (Inr [(''message'', PyStr ''download has been cancelled''),
                     (''task_id'', PyStr task_id)], s3))"

section \<open>Deployments (api/models/deployment.py)\<close>

text \<open>\<^verbatim>\<open>Deployment._trigger_state_event\<close> and \<^verbatim>\<open>Deployment.update_health_status\<close>.\<close>

definition deployment_trigger_state_event ::
  "timestamp \<Rightarrow> string option \<Rightarrow> state \<Rightarrow> Deployment \<Rightarrow> string \<Rightarrow> pydict \<Rightarrow> state" where
  "deployment_trigger_state_event t push s deployment event_name event_data =
     snd (trigger_model_event (service_env t push) s (d_model_id deployment)
            (d_model_source deployment) event_name
            (Some (dict_update
               [(''deployment_id'', PyStr (d_id deployment)),
                (''deployment_name'', PyStr (d_name deployment)),
                (''deployment_status'', PyStr (d_status deployment)),
                (''health_status'', (case d_health_status deployment of
                                       None \<Rightarrow> PyNone | Some h \<Rightarrow> PyStr h)),
                (''port'', (case d_port deployment of None \<Rightarrow> PyNone | Some p \<Rightarrow> PyInt p)),
                (''host'', (case d_host deployment of None \<Rightarrow> PyNone | Some h \<Rightarrow> PyStr h))]
               event_data)))"

definition update_health_status ::
  "timestamp \<Rightarrow> string option \<Rightarrow> state \<Rightarrow> Deployment \<Rightarrow> string \<Rightarrow> Deployment \<times> state" where
  "update_health_status t push s deployment status =
     (let old_health_status = d_health_status deployment;
          deployment' = deployment\<lparr>d_health_status := Some status,
                                   d_last_health_check := Some t,
                                   d_updated_at := Some t\<rparr>
      in if status = ''unhealthy'' \<and> old_health_status \<noteq> Some ''unhealthy''
         then (deployment',
               deployment_trigger_state_event t push s deployment' ''health_check_failed''
                 [(''health_check_time'', PyTime t),
                  (''previous_status'', (case old_health_status of
                                           None \<Rightarrow> PyNone | Some h \<Rightarrow> PyStr h))])
         else (deployment', s))"

definition deployment_get :: "state \<Rightarrow> string \<Rightarrow> Deployment option" where
  "deployment_get s deployment_id = find (\<lambda>d. d_id d = deployment_id) (deployments s)"

definition deployment_put :: "state \<Rightarrow> Deployment \<Rightarrow> state" where
  "deployment_put s deployment =
     s\<lparr>deployments := map (\<lambda>u. if d_id u = d_id deployment then deployment else u)
                          (deployments s)\<rparr>"

section \<open>Ports (api/services/system\_service.py)\<close>

text \<open>
  An entry of \<^verbatim>\<open>psutil.net_connections()\<close>. The listing of one call is \<open>Some\<close> of the
  entries, or \<open>None\<close> when the listing or its inspection raises: the handler of
  \<^verbatim>\<open>check_port_availability\<close> then answers \<^verbatim>\<open>False\<close>.
\<close>

record conn =
  laddr_port :: int
  conn_status :: string

definition CONN_LISTEN :: string where
  "CONN_LISTEN = ''LISTEN''"

fun scan_connections :: "conn list \<Rightarrow> int \<Rightarrow> bool" where
  "scan_connections [] port = True"
| "scan_connections (c # connections) port =
     (if laddr_port c = port \<and> conn_status c = CONN_LISTEN then False
      else scan_connections connections port)"

definition check_port_availability :: "conn list option \<Rightarrow> int \<Rightarrow> bool" where
  "check_port_availability net port =
     (case net of None \<Rightarrow> False | Some connections \<Rightarrow> scan_connections connections port)"

text \<open>\<^verbatim>\<open>for port in range(start_port, end_port + 1)\<close>\<close>

function find_available_port :: "conn list option \<Rightarrow> int \<Rightarrow> int \<Rightarrow> int option" where
  "find_available_port net start_port end_port =
     (if start_port > end_port then None
      else if check_port_availability net start_port then Some start_port
      else find_available_port net (start_port + 1) end_port)"
  by pat_completeness auto
termination
  by (relation "measure (\<lambda>(net, start_port, end_port). nat (end_port + 1 - start_port))") auto

declare find_available_port.simps [simp del]

section \<open>The deployment service (api/services/deployment\_service.py)\<close>

text \<open>\<^verbatim>\<open>if preferred_port:\<close> holds for a port that is neither \<^verbatim>\<open>None\<close> nor zero.\<close>

definition allocate_port :: "conn list option \<Rightarrow> int option \<Rightarrow> api_error + int option" where
  "allocate_port net preferred_port =
     (case preferred_port of
        Some p \<Rightarrow>
          if p \<noteq> 0 then
            (if check_port_availability net p then Inr (Some p)
             else Inl (ValidationError (Text_port_in_use p)))
          else Inr (find_available_port net 8000 9000)
      | None \<Rightarrow> Inr (find_available_port net 8000 9000))"

record deploy_env =
  de_now :: timestamp
  net_connections :: "conn list option"
  de_new_uuid :: string

definition create_deployment ::
  "deploy_env \<Rightarrow> state \<Rightarrow> string \<Rightarrow> string \<Rightarrow> string \<Rightarrow> deploy_config option \<Rightarrow>
   (api_error + Deployment) \<times> state" where
  "create_deployment env s model_id source name config =
     (case Model_query s model_id source of
        None \<Rightarrow> (Inl (NotFoundError (Text_model_missing model_id)), s)
      | Some model \<Rightarrow>
          (case find (\<lambda>d. d_name d = name) (deployments s) of
             Some existing \<Rightarrow> (Inl (ConflictError (Text_name_exists name)), s)
           | None \<Rightarrow>
               (case allocate_port (net_connections env)
                       (case config of Some c \<Rightarrow> cfg_port c | None \<Rightarrow> None) of
                  Inl err \<Rightarrow> (Inl err, s)
                | Inr None \<Rightarrow> (Inl (ValidationError Text_no_port), s)
                | Inr (Some port) \<Rightarrow>
                    if port = 0 then (Inl (ValidationError Text_no_port), s)
                    else
                      let deployment =
                            \<lparr>d_id = de_new_uuid env, d_model_id = model_id,
                             d_model_source = source, d_name = name, d_status = ''pending'',
                             d_port = Some port,
                             d_host = (case config of
                                         Some c \<Rightarrow> (case cfg_host c of
                                                      Some h \<Rightarrow> Some h
                                                    | None \<Rightarrow> Some ''0.0.0.0'')
                                       | None \<Rightarrow> Some ''0.0.0.0''),
                             d_container_id = None,
                             d_config = (case config of
                                           Some c \<Rightarrow> c
                                         | None \<Rightarrow> \<lparr>cfg_port = None, cfg_host = None\<rparr>),
                             d_health_status = Some ''unknown'',
                             d_last_health_check = None,
                             d_created_at = Some (de_now env),
                             d_updated_at = Some (de_now env)\<rparr>
                      in (Inr deployment, s\<lparr>deployments := deployments s @ [deployment]\<rparr>))))"

text \<open>
  The collaborators of one \<^verbatim>\<open>check_deployment_health\<close>: the answer of
  \<^verbatim>\<open>_check_container_status\<close>, and what the two requests do. A request gives a response
  with a status code and a body, raises a \<^verbatim>\<open>requests.RequestException\<close> (which the
  inner handler turns into "not healthy"), or something else goes wrong with it (which
  reaches the outer handler and is recorded as health \<^verbatim>\<open>error\<close>). Reading the body with
  \<^verbatim>\<open>response.json()\<close> gives a dictionary, gives another value (with the text of the
  exception that its use as a dictionary raises), or raises: a
  \<^verbatim>\<open>RequestException\<close> or another exception, as the version of the library has it.
\<close>

datatype json_outcome =
    Json_dict
  | Json_not_dict string
  | Json_request_exception string
  | Json_other_exception string

datatype http_outcome = Response int json_outcome | RequestException string | OtherError string

record health_env =
  he_now :: timestamp
  he_push_exc :: "string option"
  container_running :: bool
  health_get :: http_outcome
  models_get :: http_outcome

datatype health_detail = Not_running string | Process_missing | Probed | Check_failed string

record health_result =
  hr_deployment_id :: string
  hr_healthy :: bool
  hr_detail :: health_detail
  hr_last_check :: "timestamp option"

text \<open>
  Lines 321 to 357: the probe of the service, by model source. \<open>Inr\<close> is the value of
  \<^verbatim>\<open>healthy\<close>, \<open>Inl\<close> an exception that the inner handler does not catch.
\<close>

definition probe_service :: "health_env \<Rightarrow> Deployment \<Rightarrow> string + bool" where
  "probe_service env deployment =
     (if d_model_source deployment = ''huggingface'' then
        (case health_get env of
           OtherError e \<Rightarrow> Inl e
         | RequestException e \<Rightarrow> Inr False
         | Response code body \<Rightarrow>
             if code = 200 then
               (case body of
                  Json_request_exception e \<Rightarrow> Inr False
                | Json_other_exception e \<Rightarrow> Inl e
                | response_data \<Rightarrow>
                    (case models_get env of
                       OtherError e \<Rightarrow> Inl e
                     | RequestException e \<Rightarrow> Inr False
                     | Response models_code models_body \<Rightarrow>
                         if models_code = 200 then
                           (case models_body of
                              Json_request_exception e \<Rightarrow> Inr False
                            | Json_other_exception e \<Rightarrow> Inl e
                            | Json_not_dict e \<Rightarrow> Inl e
                            | Json_dict \<Rightarrow>
                                (case response_data of
                                   Json_not_dict e \<Rightarrow> Inl e
                                 | data \<Rightarrow> Inr True))
                         else Inr True))
             else Inr False)
      else if d_model_source deployment = ''ollama'' then
        (case health_get env of
           OtherError e \<Rightarrow> Inl e
         | RequestException e \<Rightarrow> Inr False
         | Response code body \<Rightarrow>
             if code = 200 then
               (case body of
                  Json_request_exception e \<Rightarrow> Inr False
                | Json_other_exception e \<Rightarrow> Inl e
                | response_data \<Rightarrow> Inr True)
             else Inr False)
      else Inr False)"

definition check_deployment_health ::
  "health_env \<Rightarrow> state \<Rightarrow> string \<Rightarrow> (api_error + health_result) \<times> state" where
  "check_deployment_health env s deployment_id =
     (case deployment_get s deployment_id of
        None \<Rightarrow> (Inl (NotFoundError (Text_deployment_missing deployment_id)), s)
      | Some deployment \<Rightarrow>
          if d_status deployment \<noteq> ''running'' then
            let (d1, s1) = update_health_status (he_now env) (he_push_exc env) s deployment
                             ''unhealthy''
            in (Inr \<lparr>hr_deployment_id = deployment_id, hr_healthy = False,
                     hr_detail = Not_running (d_status d1),
                     hr_last_check = d_last_health_check d1\<rparr>,
                deployment_put s1 d1)
          else if (case d_container_id deployment of
                     Some c \<Rightarrow> c \<noteq> [] \<and> \<not> container_running env
                   | None \<Rightarrow> False) then
            let (d1, s1) = update_health_status (he_now env) (he_push_exc env) s deployment
                             ''unhealthy'';
                d2 = d1\<lparr>d_status := ''stopped''\<rparr>
            in (Inr \<lparr>hr_deployment_id = deployment_id, hr_healthy = False,
                     hr_detail = Process_missing,
                     hr_last_check = d_last_health_check d2\<rparr>,
                deployment_put s1 d2)
          else
            (case probe_service env deployment of
               Inr healthy \<Rightarrow>
                 let (d1, s1) = update_health_status (he_now env) (he_push_exc env) s deployment
                                  (if healthy then ''healthy'' else ''unhealthy'')
                 in (Inr \<lparr>hr_deployment_id = deployment_id, hr_healthy = healthy,
                          hr_detail = Probed, hr_last_check = d_last_health_check d1\<rparr>,
                     deployment_put s1 d1)
             | Inl e \<Rightarrow>
                 let (d1, s1) = update_health_status (he_now env) (he_push_exc env) s deployment
                                  ''error''
                 in (Inr \<lparr>hr_deployment_id = deployment_id, hr_healthy = False,
                          hr_detail = Check_failed e, hr_last_check = d_last_health_check d1\<rparr>,
                     deployment_put s1 d1)))"

section \<open>Sequences of calls and derived predicates\<close>


text \<open>A listening socket is bound to the port: the condition the scan looks for.\<close>

definition listening :: "conn list \<Rightarrow> int \<Rightarrow> bool" where
  "listening connections port =
     (\<exists>c \<in> set connections. laddr_port c = port \<and> conn_status c = CONN_LISTEN)"

text \<open>
  A sequence of health checks of one deployment, one environment for each call; the
  result lists the states after the calls.
\<close>

fun health_checks :: "state \<Rightarrow> string \<Rightarrow> health_env list \<Rightarrow> state list" where
  "health_checks s deployment_id [] = []"
| "health_checks s deployment_id (env # envs) =
     (let s' = snd (check_deployment_health env s deployment_id)
      in s' # health_checks s' deployment_id envs)"

section \<open>What marks a forced change in the history\<close>

text \<open>
  \<^verbatim>\<open>force_state\<close> records its change with the event data \<^verbatim>\<open>{'force_set': True}\<close>.
\<close>

definition manual_override :: "change_info \<Rightarrow> bool" where
  "manual_override r = (ci_event_data r = Some [(''force_set'', PyBool True)])"

section \<open>Example states\<close>

definition ex_model :: Model where
  "ex_model = \<lparr>m_source = ''huggingface'', m_status = Some ''active'', m_updated_at = 0\<rparr>"

definition ex_state :: state where
  "ex_state = \<lparr>models = [''org/m'' \<mapsto> ex_model], tasks = [], deployments = [], fs = Map.empty,
                history = [], status_queue = [], error_log = [], raised = []\<rparr>"

definition ex_env :: sm_env where
  "ex_env = \<lparr>now = 5, commit_exc = None, push_exc = None\<rparr>"

definition ex_env_push_fails :: sm_env where
  "ex_env_push_fails = \<lparr>now = 5, commit_exc = None, push_exc = Some ''queue closed''\<rparr>"

definition ex_state_deprecated :: state where
  "ex_state_deprecated =
     ex_state\<lparr>models := [''org/old'' \<mapsto> \<lparr>m_source = ''huggingface'',
                                          m_status = Some ''deprecated'', m_updated_at = 0\<rparr>]\<rparr>"

definition ex_task :: DownloadTask where
  "ex_task = \<lparr>t_id = ''t1'', t_model_id = ''org/m'', t_model_source = ''huggingface'',
               t_status = ''downloading'', t_progress = 0, t_download_size = 0,
               t_total_size = None, t_download_speed = None,
               t_file_path = Some ''/data/huggingface/org_m'',
               t_created_at = Some 1, t_updated_at = Some 1, t_started_at = Some 1,
               t_completed_at = None\<rparr>"

definition ex_downloading_model :: Model where
  "ex_downloading_model =
     \<lparr>m_source = ''huggingface'', m_status = Some ''downloading'', m_updated_at = 1\<rparr>"

definition ex_download_state :: state where
  "ex_download_state =
     \<lparr>models = [''org/m'' \<mapsto> ex_downloading_model],
      tasks = [ex_task], deployments = [],
      fs = [''/data/huggingface/org_m'' \<mapsto> Dir,
            ''/data/huggingface/org_m/model.bin'' \<mapsto> File,
            ''/data/huggingface/org_mx'' \<mapsto> File],
      history = [], status_queue = [], error_log = [], raised = []\<rparr>"

definition ex_download_state_file :: state where
  "ex_download_state_file =
     ex_download_state\<lparr>fs := [''/data/huggingface/org_m'' \<mapsto> File,
                               ''/data/huggingface/other'' \<mapsto> File]\<rparr>"

definition ex_create_env :: create_env where
  "ex_create_env =
     \<lparr>ce_now = 9, hub = (\<lambda>model_id. Hub_found),
      resolve_download_path = (\<lambda>model_id source. ''/data/'' @ source @ ''/'' @ model_id),
      validate_download_path = (\<lambda>path. None), check_storage_space = None,
      new_uuid = ''t2''\<rparr>"


definition ex_removal_env :: removal_env where
  "ex_removal_env = \<lparr>os_remove_exc = None, rmtree_exc = None\<rparr>"

definition ex_download_state_link :: state where
  "ex_download_state_link =
     ex_download_state\<lparr>fs := [''/data/huggingface/org_m'' \<mapsto> Link_to_dir,
                               ''/mnt/models/org_m'' \<mapsto> Dir,
                               ''/mnt/models/org_m/model.bin'' \<mapsto> File]\<rparr>"

definition ex_removal_denied :: removal_env where
  "ex_removal_denied =
     \<lparr>os_remove_exc = Some ''[Errno 13] Permission denied'',
      rmtree_exc = Some (''[Errno 13] Permission denied'', fs ex_download_state)\<rparr>"

definition ex_connections :: "conn list" where
  "ex_connections =
     [\<lparr>laddr_port = 8000, conn_status = ''LISTEN''\<rparr>,
      \<lparr>laddr_port = 8001, conn_status = ''ESTABLISHED''\<rparr>,
      \<lparr>laddr_port = 22, conn_status = ''LISTEN''\<rparr>]"

definition ex_all_bound :: "conn list" where
  "ex_all_bound = map (\<lambda>p. \<lparr>laddr_port = p, conn_status = ''LISTEN''\<rparr>) [8000..9000]"

definition ex_deploy_env :: deploy_env where
  "ex_deploy_env = \<lparr>de_now = 9, net_connections = Some ex_connections, de_new_uuid = ''d1''\<rparr>"

definition ex_deployment :: Deployment where
  "ex_deployment =
     \<lparr>d_id = ''d1'', d_model_id = ''org/m'', d_model_source = ''huggingface'',
      d_name = ''dep1'', d_status = ''running'', d_port = Some 8001,
      d_host = Some ''0.0.0.0'', d_container_id = Some ''4242'',
      d_config = \<lparr>cfg_port = None, cfg_host = None\<rparr>,
      d_health_status = Some ''healthy'', d_last_health_check = Some 3,
      d_created_at = Some 1, d_updated_at = Some 3\<rparr>"

definition ex_deployed_state :: state where
  "ex_deployed_state = ex_state\<lparr>deployments := [ex_deployment]\<rparr>"

definition ex_health_env :: health_env where
  "ex_health_env =
     \<lparr>he_now = 20, he_push_exc = None, container_running = True,
      health_get = RequestException ''connection refused'',
      models_get = Response 200 Json_dict\<rparr>"

definition ex_health_envs :: "health_env list" where
  "ex_health_envs =
     [ex_health_env, ex_health_env\<lparr>he_now := 25\<rparr>,
      ex_health_env\<lparr>he_now := 30, health_get := Response 200 Json_dict\<rparr>]"

definition ex_ollama_task :: DownloadTask where
  "ex_ollama_task = ex_task\<lparr>t_model_id := ''llama3'', t_model_source := ''ollama''\<rparr>"

definition ex_ollama_state :: state where
  "ex_ollama_state = ex_download_state\<lparr>tasks := [ex_ollama_task]\<rparr>"

section \<open>Facts about the example states\<close>

lemma ex_row: "Model_query ex_state ''org/m'' ''huggingface'' = Some ex_model"
  by (simp add: Model_query_def ex_state_def ex_model_def)

lemma ex_current: "read_current_state (m_status ex_model) = ACTIVE"
  by (simp add: read_current_state_def ex_model_def ModelState_of_value_def)

lemma ex_download_row:
  "Model_query ex_download_state ''org/m'' ''huggingface'' = Some ex_downloading_model"
  by (simp add: Model_query_def ex_download_state_def ex_downloading_model_def)

lemma ex_commit: "commit_exc ex_env = None"
  by (simp add: ex_env_def)

lemma ex_task_found: "task_get ex_download_state ''t1'' = Some ex_task"
  by (simp add: task_get_def ex_download_state_def ex_task_def)

lemma ex_task_by_model: "get_by_model ex_download_state ''org/m'' ''huggingface'' = Some ex_task"
  by (simp add: get_by_model_def ex_download_state_def ex_task_def)

lemma ex_task_status: "t_status ex_task = ''downloading''"
  by (simp add: ex_task_def)

lemma ex_listening:
  "listening ex_connections 8000" "\<not> listening ex_connections 8080"
  "\<not> listening ex_connections 8001"
  by (simp_all add: listening_def ex_connections_def CONN_LISTEN_def)

lemma listening_range:
  "listening (map (\<lambda>p. \<lparr>laddr_port = p, conn_status = ''LISTEN''\<rparr>) [a..b]) q \<longleftrightarrow> a \<le> q \<and> q \<le> b"
  by (auto simp add: listening_def CONN_LISTEN_def)

lemma ex_all_bound_listening: "listening ex_all_bound q \<longleftrightarrow> 8000 \<le> q \<and> q \<le> 9000"
  unfolding ex_all_bound_def by (rule listening_range)

lemma ex_deployment_found: "deployment_get ex_deployed_state ''d1'' = Some ex_deployment"
  by (simp add: deployment_get_def ex_deployed_state_def ex_deployment_def)

lemmas ex_health_defs =
  check_deployment_health_def deployment_get_def ex_deployed_state_def
  ex_deployment_def ex_health_env_def probe_service_def update_health_status_def Let_def
  deployment_trigger_state_event_def trigger_model_event_def ModelEvent_of_value_def
  transition_def atomic_transaction_def transition_block_def Model_query_def ex_state_def
  ex_model_def read_current_state_def ModelState_of_value_def can_transition_def
  get_next_state_def TRANSITIONS_def service_env_def record_state_change_def
  notify_state_change_def deployment_put_def ex_health_envs_def

lemma ex_health_run:
  "map (\<lambda>s. map_option d_health_status (deployment_get s ''d1''))
     (health_checks ex_deployed_state ''d1'' ex_health_envs)
     = [Some (Some ''unhealthy''), Some (Some ''unhealthy''), Some (Some ''healthy'')]"
  "map (\<lambda>s. map_option d_last_health_check (deployment_get s ''d1''))
     (health_checks ex_deployed_state ''d1'' ex_health_envs)
     = [Some (Some 20), Some (Some 25), Some (Some 30)]"
  "map raised (health_checks ex_deployed_state ''d1'' ex_health_envs)
     = [[(''org/m'', ''huggingface'', ''health_check_failed'')],
        [(''org/m'', ''huggingface'', ''health_check_failed'')],
        [(''org/m'', ''huggingface'', ''health_check_failed'')]]"
  by (simp_all add: ex_health_defs)

section \<open>The transition table\<close>

lemma table_no_self: "map_of TRANSITIONS (cs, ev) = Some ns \<Longrightarrow> ns \<noteq> cs"
  by (cases cs; cases ev; simp add: TRANSITIONS_def)

lemma can_transition_iff: "can_transition cs ev \<longleftrightarrow> map_of TRANSITIONS (cs, ev) \<noteq> None"
  unfolding can_transition_def by (simp add: map_of_eq_None_iff)

lemma valid_events_iff: "ev \<in> set (get_valid_transitions cs) \<longleftrightarrow> map_of TRANSITIONS (cs, ev) \<noteq> None"
  unfolding get_valid_transitions_def by (force simp add: map_of_eq_None_iff)

lemma rollback_same [simp]: "rollback s s = s"
  by (simp add: rollback_def)

lemma transition_legal:
  assumes row: "Model_query s model_id model_source = Some model"
    and commit: "commit_exc env = None"
    and legal: "map_of TRANSITIONS (read_current_state (m_status model), event) = Some new_state"
  shows "transition env s model_id model_source event event_data auto_notify =
     ((True, None),
      (let s1 = s\<lparr>models := (models s)(model_id \<mapsto>
                              model\<lparr>m_status := Some (state_value new_state),
                                    m_updated_at := now env\<rparr>)\<rparr>;
           s2 = record_state_change env s1 model_id model_source (m_status model)
                              (state_value new_state) event event_data
       in if auto_notify then notify_state_change env s2 model_id model_source (m_status model)
                                    (state_value new_state) else s2))"
proof -
  from legal have ne: "read_current_state (m_status model) \<noteq> new_state" using table_no_self by blast
  from legal have can: "can_transition (read_current_state (m_status model)) event"
    by (simp add: can_transition_iff)
  show ?thesis using row commit legal ne can
    by (simp add: transition_def atomic_transaction_def transition_block_def get_next_state_def Let_def)
qed

lemma transition_by_read_state:
  assumes row: "Model_query s model_id model_source = Some model"
    and commit: "commit_exc env = None"
  shows "(\<forall>new_state. map_of TRANSITIONS (read_current_state (m_status model), event) = Some new_state \<longrightarrow>
            fst (transition env s model_id model_source event event_data auto_notify) = (True, None) \<and>
            Model_query (snd (transition env s model_id model_source event event_data auto_notify))
                model_id model_source
              = Some (model\<lparr>m_status := Some (state_value new_state), m_updated_at := now env\<rparr>))
       \<and> (map_of TRANSITIONS (read_current_state (m_status model), event) = None \<longrightarrow>
            fst (transition env s model_id model_source event event_data auto_notify)
              = (False, Some (''Invalid transition: '' @ state_value (read_current_state (m_status model)) @
                    '' -> '' @ event_value event @ ''. Valid events: '' @
                    py_repr_list (map event_value (get_valid_transitions (read_current_state (m_status model)))))) \<and>
            (\<forall>e. e \<in> set (get_valid_transitions (read_current_state (m_status model))) \<longleftrightarrow>
                 map_of TRANSITIONS (read_current_state (m_status model), e) \<noteq> None) \<and>
            models (snd (transition env s model_id model_source event event_data auto_notify)) = models s)"
proof (intro conjI allI impI)
  fix new_state
  assume t: "map_of TRANSITIONS (read_current_state (m_status model), event) = Some new_state"
  have src: "m_source model = model_source"
    using row by (auto simp: Model_query_def split: option.splits if_splits)
  show "fst (transition env s model_id model_source event event_data auto_notify) = (True, None)"
    by (simp add: transition_legal[OF row commit t])
  show "Model_query (snd (transition env s model_id model_source event event_data auto_notify))
                model_id model_source
              = Some (model\<lparr>m_status := Some (state_value new_state), m_updated_at := now env\<rparr>)"
    using src
    by (simp add: transition_legal[OF row commit t] Let_def Model_query_def record_state_change_def
        notify_state_change_def split: option.splits)
next
  assume t: "map_of TRANSITIONS (read_current_state (m_status model), event) = None"
  then have can: "\<not> can_transition (read_current_state (m_status model)) event"
    by (simp add: can_transition_iff)
  show "fst (transition env s model_id model_source event event_data auto_notify)
              = (False, Some (''Invalid transition: '' @ state_value (read_current_state (m_status model)) @
                    '' -> '' @ event_value event @ ''. Valid events: '' @
                    py_repr_list (map event_value (get_valid_transitions (read_current_state (m_status model))))))"
    using row commit can
    by (simp add: transition_def atomic_transaction_def transition_block_def Let_def)
  show "models (snd (transition env s model_id model_source event event_data auto_notify)) = models s"
    using row commit can
    by (simp add: transition_def atomic_transaction_def transition_block_def Let_def)
  fix e
  show "e \<in> set (get_valid_transitions (read_current_state (m_status model))) \<longleftrightarrow>
                 map_of TRANSITIONS (read_current_state (m_status model), e) \<noteq> None"
    by (rule valid_events_iff)
qed

lemma transitions_distinct: "distinct (map fst TRANSITIONS)"
  by (simp add: TRANSITIONS_def)

lemma table_entry_iff:
  "map_of TRANSITIONS (cs, ev) = Some ns \<longleftrightarrow> ((cs, ev), ns) \<in> set TRANSITIONS"
  using transitions_distinct by simp

lemma table_no_entry_iff:
  "map_of TRANSITIONS (cs, ev) = None \<longleftrightarrow> (\<forall>ns. ((cs, ev), ns) \<notin> set TRANSITIONS)"
proof -
  have "map_of TRANSITIONS (cs, ev) = None \<longleftrightarrow> (\<forall>ns. map_of TRANSITIONS (cs, ev) \<noteq> Some ns)"
    by auto
  then show ?thesis by (simp only: table_entry_iff)
qed

lemma read_current_state_value: "read_current_state (Some (state_value st)) = st"
  by (cases st) (simp_all add: read_current_state_def ModelState_of_value_def)

lemma valid_events_text:
  "py_repr_list (map event_value (get_valid_transitions cs)) =
     (case cs of
        INACTIVE \<Rightarrow> ''['download_started', 'deploy_started', 'manual_error_set']''
      | DOWNLOADING \<Rightarrow>
          ''['download_completed', 'download_failed', 'download_cancelled', 'deploy_started', 'manual_error_set']''
      | DEPLOYING \<Rightarrow> ''['deploy_completed', 'deploy_failed', 'manual_error_set']''
      | ACTIVE \<Rightarrow>
          ''['deploy_stopped', 'health_check_failed', 'deploy_started', 'download_started', 'manual_error_set']''
      | TRAINING \<Rightarrow> ''['manual_reset', 'manual_error_set']''
      | ERROR \<Rightarrow> ''['download_started', 'deploy_started', 'manual_reset']'')"
  by (cases cs)
    (simp_all add: get_valid_transitions_def TRANSITIONS_def py_repr_list_def py_repr_str_def)

text \<open>
  C1: for a key whose row is stored with the value of state \<open>current_state\<close>, for every
  state and every event, when the transaction commits: if the table holds the entry
  \<open>(current_state, event) \<mapsto> new_state\<close>, \<open>transition\<close> answers \<open>(True, None)\<close> and the row
  then holds the value of \<open>new_state\<close>; if the table holds no entry for the pair,
  \<open>transition\<close> answers \<open>False\<close> with the message that names the pair and lists, as
  written out below for each state, the events of the table's entries for that state,
  and the table of models (so the stored row) is as before.
\<close>

theorem transition_follows_table:
  assumes row: "Model_query s model_id model_source = Some model"
    and stored: "m_status model = Some (state_value current_state)"
    and commit: "commit_exc env = None"
  shows "(\<forall>new_state. ((current_state, event), new_state) \<in> set TRANSITIONS \<longrightarrow>
            fst (transition env s model_id model_source event event_data auto_notify)
              = (True, None)
          \<and> Model_query (snd (transition env s model_id model_source event event_data auto_notify))
                model_id model_source
              = Some (model\<lparr>m_status := Some (state_value new_state),
                             m_updated_at := now env\<rparr>))
       \<and> ((\<forall>new_state. ((current_state, event), new_state) \<notin> set TRANSITIONS) \<longrightarrow>
            fst (transition env s model_id model_source event event_data auto_notify)
              = (False,
                 Some (''Invalid transition: '' @ state_value current_state @ '' -> '' @
                       event_value event @ ''. Valid events: '' @
                       (case current_state of
                          INACTIVE \<Rightarrow> ''['download_started', 'deploy_started', 'manual_error_set']''
                        | DOWNLOADING \<Rightarrow>
                            ''['download_completed', 'download_failed', 'download_cancelled', 'deploy_started', 'manual_error_set']''
                        | DEPLOYING \<Rightarrow> ''['deploy_completed', 'deploy_failed', 'manual_error_set']''
                        | ACTIVE \<Rightarrow>
                            ''['deploy_stopped', 'health_check_failed', 'deploy_started', 'download_started', 'manual_error_set']''
                        | TRAINING \<Rightarrow> ''['manual_reset', 'manual_error_set']''
                        | ERROR \<Rightarrow> ''['download_started', 'deploy_started', 'manual_reset']'')))
          \<and> models (snd (transition env s model_id model_source event event_data auto_notify))
              = models s
          \<and> Model_query (snd (transition env s model_id model_source event event_data auto_notify))
                model_id model_source = Some model)"
proof -
  have cur: "read_current_state (m_status model) = current_state"
    by (simp add: stored read_current_state_value)
  note th = transition_by_read_state[OF row commit, where event = event and event_data = event_data
      and auto_notify = auto_notify,
      unfolded cur table_entry_iff table_no_entry_iff valid_events_text]
  show ?thesis
  proof (intro conjI allI impI)
    fix new_state
    assume e: "((current_state, event), new_state) \<in> set TRANSITIONS"
    show "fst (transition env s model_id model_source event event_data auto_notify) = (True, None)"
      using th e by blast
    show "Model_query (snd (transition env s model_id model_source event event_data auto_notify))
                model_id model_source
              = Some (model\<lparr>m_status := Some (state_value new_state),
                             m_updated_at := now env\<rparr>)"
      using th e by blast
  next
    assume n: "\<forall>new_state. ((current_state, event), new_state) \<notin> set TRANSITIONS"
    have inv: "fst (transition env s model_id model_source event event_data auto_notify)
              = (False,
                 Some (''Invalid transition: '' @ state_value current_state @ '' -> '' @
                       event_value event @ ''. Valid events: '' @
                       (case current_state of
                          INACTIVE \<Rightarrow> ''['download_started', 'deploy_started', 'manual_error_set']''
                        | DOWNLOADING \<Rightarrow>
                            ''['download_completed', 'download_failed', 'download_cancelled', 'deploy_started', 'manual_error_set']''
                        | DEPLOYING \<Rightarrow> ''['deploy_completed', 'deploy_failed', 'manual_error_set']''
                        | ACTIVE \<Rightarrow>
                            ''['deploy_stopped', 'health_check_failed', 'deploy_started', 'download_started', 'manual_error_set']''
                        | TRAINING \<Rightarrow> ''['manual_reset', 'manual_error_set']''
                        | ERROR \<Rightarrow> ''['download_started', 'deploy_started', 'manual_reset']'')))"
      using th[THEN conjunct2] n by blast
    have same: "models (snd (transition env s model_id model_source event event_data auto_notify))
              = models s"
      using th[THEN conjunct2] n by blast
    show "fst (transition env s model_id model_source event event_data auto_notify)
              = (False,
                 Some (''Invalid transition: '' @ state_value current_state @ '' -> '' @
                       event_value event @ ''. Valid events: '' @
                       (case current_state of
                          INACTIVE \<Rightarrow> ''['download_started', 'deploy_started', 'manual_error_set']''
                        | DOWNLOADING \<Rightarrow>
                            ''['download_completed', 'download_failed', 'download_cancelled', 'deploy_started', 'manual_error_set']''
                        | DEPLOYING \<Rightarrow> ''['deploy_completed', 'deploy_failed', 'manual_error_set']''
                        | ACTIVE \<Rightarrow>
                            ''['deploy_stopped', 'health_check_failed', 'deploy_started', 'download_started', 'manual_error_set']''
                        | TRAINING \<Rightarrow> ''['manual_reset', 'manual_error_set']''
                        | ERROR \<Rightarrow> ''['download_started', 'deploy_started', 'manual_reset']'')))"
      by (rule inv)
    show "models (snd (transition env s model_id model_source event event_data auto_notify))
              = models s"
      by (rule same)
    show "Model_query (snd (transition env s model_id model_source event event_data auto_notify))
                model_id model_source = Some model"
      using row by (simp add: Model_query_def same)
  qed
qed

theorem transition_follows_table_witness:
  "Model_query ex_state ''org/m'' ''huggingface'' = Some ex_model
 \<and> m_status ex_model = Some (state_value ACTIVE)
 \<and> commit_exc ex_env = None
 \<and> ((ACTIVE, DEPLOY_STOPPED), INACTIVE) \<in> set TRANSITIONS
 \<and> fst (transition ex_env ex_state ''org/m'' ''huggingface'' DEPLOY_STOPPED None True) = (True, None)
 \<and> Model_query (snd (transition ex_env ex_state ''org/m'' ''huggingface'' DEPLOY_STOPPED None True))
       ''org/m'' ''huggingface''
     = Some (ex_model\<lparr>m_status := Some ''inactive'', m_updated_at := 5\<rparr>)
 \<and> (\<forall>new_state. ((ACTIVE, DOWNLOAD_COMPLETED), new_state) \<notin> set TRANSITIONS)
 \<and> fst (transition ex_env ex_state ''org/m'' ''huggingface'' DOWNLOAD_COMPLETED None True)
     = (False,
        Some ''Invalid transition: active -> download_completed. Valid events: ['deploy_stopped', 'health_check_failed', 'deploy_started', 'download_started', 'manual_error_set']'')
 \<and> models (snd (transition ex_env ex_state ''org/m'' ''huggingface'' DOWNLOAD_COMPLETED None True))
     = models ex_state
 \<and> Model_query ex_download_state ''org/m'' ''huggingface'' = Some ex_downloading_model
 \<and> m_status ex_downloading_model = Some (state_value DOWNLOADING)
 \<and> ((DOWNLOADING, DOWNLOAD_COMPLETED), INACTIVE) \<in> set TRANSITIONS
 \<and> fst (transition ex_env ex_download_state ''org/m'' ''huggingface'' DOWNLOAD_COMPLETED None True)
     = (True, None)
 \<and> Model_query (snd (transition ex_env ex_download_state ''org/m'' ''huggingface''
                        DOWNLOAD_COMPLETED None True)) ''org/m'' ''huggingface''
     = Some (ex_downloading_model\<lparr>m_status := Some ''inactive'', m_updated_at := 5\<rparr>)
 \<and> (\<forall>new_state. ((DOWNLOADING, DEPLOY_STOPPED), new_state) \<notin> set TRANSITIONS)
 \<and> fst (transition ex_env ex_download_state ''org/m'' ''huggingface'' DEPLOY_STOPPED None True)
     = (False,
        Some ''Invalid transition: downloading -> deploy_stopped. Valid events: ['download_completed', 'download_failed', 'download_cancelled', 'deploy_started', 'manual_error_set']'')
 \<and> models (snd (transition ex_env ex_download_state ''org/m'' ''huggingface'' DEPLOY_STOPPED
                   None True)) = models ex_download_state"
proof -
  have st1: "m_status ex_model = Some (state_value ACTIVE)" by (simp add: ex_model_def)
  have st2: "m_status ex_downloading_model = Some (state_value DOWNLOADING)"
    by (simp add: ex_downloading_model_def)
  have l1: "((ACTIVE, DEPLOY_STOPPED), INACTIVE) \<in> set TRANSITIONS"
    and l2: "((DOWNLOADING, DOWNLOAD_COMPLETED), INACTIVE) \<in> set TRANSITIONS"
    by (simp_all add: TRANSITIONS_def)
  have n1: "\<forall>new_state. ((ACTIVE, DOWNLOAD_COMPLETED), new_state) \<notin> set TRANSITIONS"
    and n2: "\<forall>new_state. ((DOWNLOADING, DEPLOY_STOPPED), new_state) \<notin> set TRANSITIONS"
    by (simp_all add: TRANSITIONS_def)
  have n: "now ex_env = 5" by (simp add: ex_env_def)
  note a = transition_follows_table[OF ex_row st1 ex_commit, where event = DEPLOY_STOPPED and event_data = None
      and auto_notify = True,
      THEN conjunct1, rule_format, OF l1]
  note b = transition_follows_table[OF ex_row st1 ex_commit, where event = DOWNLOAD_COMPLETED and event_data = None
      and auto_notify = True,
      THEN conjunct2, THEN mp, OF n1]
  note c = transition_follows_table[OF ex_download_row st2 ex_commit, where event = DOWNLOAD_COMPLETED and event_data = None
      and auto_notify = True, THEN conjunct1, rule_format, OF l2]
  note d = transition_follows_table[OF ex_download_row st2 ex_commit, where event = DEPLOY_STOPPED and event_data = None
      and auto_notify = True,
      THEN conjunct2, THEN mp, OF n2]
  show ?thesis
    using ex_row st1 ex_commit l1 a n1 b ex_download_row st2 l2 c n2 d
    by (simp add: n)
qed

section \<open>Notification failures\<close>

text \<open>
  C2: for a legal transition of a stored row, when the transaction commits and
  \<^verbatim>\<open>push_model_status\<close> raises: \<open>transition\<close> still answers \<open>(True, None)\<close>, the new
  status is stored, and result, rows and history are those of the same call with a push
  that succeeds; nothing is put on the queue and the failure is logged.
\<close>

theorem notification_failure_keeps_transition:
  assumes row: "Model_query s model_id model_source = Some model"
    and commit: "commit_exc env = None"
    and legal: "map_of TRANSITIONS (read_current_state (m_status model), event) = Some new_state"
    and fails: "push_exc env = Some e"
  shows "fst (transition env s model_id model_source event event_data True) = (True, None)
       \<and> Model_query (snd (transition env s model_id model_source event event_data True))
             model_id model_source
           = Some (model\<lparr>m_status := Some (state_value new_state), m_updated_at := now env\<rparr>)
       \<and> fst (transition env s model_id model_source event event_data True)
           = fst (transition (env\<lparr>push_exc := None\<rparr>) s model_id model_source event event_data True)
       \<and> models (snd (transition env s model_id model_source event event_data True))
           = models (snd (transition (env\<lparr>push_exc := None\<rparr>) s model_id model_source event
                event_data True))
       \<and> history (snd (transition env s model_id model_source event event_data True))
           = history (snd (transition (env\<lparr>push_exc := None\<rparr>) s model_id model_source event
                event_data True))
       \<and> status_queue (snd (transition env s model_id model_source event event_data True))
           = status_queue s
       \<and> error_log (snd (transition env s model_id model_source event event_data True))
           = error_log s @ [''Failed to notify state change: '' @ e]"
proof -
  have c2: "commit_exc (env\<lparr>push_exc := None\<rparr>) = None" using commit by simp
  have src: "m_source model = model_source"
    using row by (auto simp: Model_query_def split: option.splits if_splits)
  show ?thesis
    using fails src
    by (simp add: transition_legal[OF row commit legal] transition_legal[OF row c2 legal]
        Let_def notify_state_change_def record_state_change_def Model_query_def)
qed

theorem notification_failure_keeps_transition_witness:
  "Model_query ex_state ''org/m'' ''huggingface'' = Some ex_model
 \<and> commit_exc ex_env_push_fails = None
 \<and> map_of TRANSITIONS (read_current_state (m_status ex_model), HEALTH_CHECK_FAILED) = Some ERROR
 \<and> push_exc ex_env_push_fails = Some ''queue closed''
 \<and> fst (transition ex_env_push_fails ex_state ''org/m'' ''huggingface'' HEALTH_CHECK_FAILED None True)
      = (True, None)
 \<and> Model_query (snd (transition ex_env_push_fails ex_state ''org/m'' ''huggingface''
                        HEALTH_CHECK_FAILED None True)) ''org/m'' ''huggingface''
      = Some (ex_model\<lparr>m_status := Some ''error'', m_updated_at := 5\<rparr>)
 \<and> status_queue (snd (transition ex_env_push_fails ex_state ''org/m'' ''huggingface''
                        HEALTH_CHECK_FAILED None True)) = []
 \<and> error_log (snd (transition ex_env_push_fails ex_state ''org/m'' ''huggingface''
                        HEALTH_CHECK_FAILED None True))
      = [''Failed to notify state change: queue closed'']"
proof -
  have commit: "commit_exc ex_env_push_fails = None" by (simp add: ex_env_push_fails_def)
  have legal: "map_of TRANSITIONS (read_current_state (m_status ex_model), HEALTH_CHECK_FAILED) = Some ERROR"
    by (simp add: ex_current TRANSITIONS_def)
  have fails: "push_exc ex_env_push_fails = Some ''queue closed''" by (simp add: ex_env_push_fails_def)
  have n: "now ex_env_push_fails = 5" by (simp add: ex_env_push_fails_def)
  have q: "status_queue ex_state = []" "error_log ex_state = []" by (simp_all add: ex_state_def)
  note th = notification_failure_keeps_transition[OF ex_row commit legal fails, of None]
  show ?thesis
    using th ex_row commit legal fails by (simp add: n q)
qed

section \<open>Forced states and missing rows\<close>

lemma dict_set_hd: "d \<noteq> [] \<Longrightarrow> dict_set d k v \<noteq> [] \<and> fst (hd (dict_set d k v)) = fst (hd d)"
  by (cases d) (auto split: if_splits)

lemma dict_update_hd: "d \<noteq> [] \<Longrightarrow> dict_update d extra \<noteq> [] \<and> fst (hd (dict_update d extra)) = fst (hd d)"
proof (induction extra arbitrary: d)
  case Nil then show ?case by simp
next
  case (Cons a extra)
  obtain k v where a: "a = (k, v)" by (cases a)
  from Cons.prems have "dict_set d k v \<noteq> [] \<and> fst (hd (dict_set d k v)) = fst (hd d)"
    by (rule dict_set_hd)
  with Cons.IH[of "dict_set d k v"] show ?case by (simp add: a)
qed

lemma transition_history:
  "\<exists>new. history (snd (transition env s model_id model_source event event_data auto_notify))
             = history s @ new \<and> (\<forall>r \<in> set new. ci_event_data r = event_data)"
  by (auto simp add: transition_def atomic_transaction_def transition_block_def Let_def rollback_def
        record_state_change_def notify_state_change_def
        split: option.splits sum.splits exc.splits prod.splits if_splits)

lemma trigger_history:
  "\<exists>new. history (snd (trigger_model_event env s model_id model_source event_name event_data))
             = history s @ new \<and> (\<forall>r \<in> set new. ci_event_data r = event_data)"
proof (cases "ModelEvent_of_value event_name")
  case None
  then show ?thesis by (simp add: trigger_model_event_def)
next
  case (Some ev)
  from transition_history[of env "s\<lparr>raised := raised s @ [(model_id, model_source, event_name)]\<rparr>"
      model_id model_source ev event_data True]
  show ?thesis using Some by (simp add: trigger_model_event_def)
qed

lemma keyed_dict_not_flag:
  "dict_update ((k, x) # rest) extra = [(''force_set'', PyBool True)] \<Longrightarrow> k = ''force_set''"
proof -
  assume eq: "dict_update ((k, x) # rest) extra = [(''force_set'', PyBool True)]"
  have "fst (hd (dict_update ((k, x) # rest) extra)) = k"
    using dict_update_hd[of "(k, x) # rest" extra] by simp
  with eq show ?thesis by simp
qed

lemma trigger_not_override:
  assumes "k \<noteq> ''force_set''"
  shows "\<exists>new. history (snd (trigger_model_event env s model_id model_source event_name
                   (Some (dict_update ((k, x) # rest) extra)))) = history s @ new
        \<and> (\<forall>r \<in> set new. \<not> manual_override r)"
proof -
  obtain new where n: "history (snd (trigger_model_event env s model_id model_source event_name
                   (Some (dict_update ((k, x) # rest) extra)))) = history s @ new"
      and d: "\<forall>r \<in> set new. ci_event_data r = Some (dict_update ((k, x) # rest) extra)"
    using trigger_history by blast
  have "\<forall>r \<in> set new. \<not> manual_override r"
  proof
    fix r assume "r \<in> set new"
    with d have "ci_event_data r = Some (dict_update ((k, x) # rest) extra)" by blast
    then show "\<not> manual_override r"
      using keyed_dict_not_flag[of k x rest extra] assms
      by (auto simp only: manual_override_def option.inject)
  qed
  with n show ?thesis by blast
qed

lemma task_trigger_not_override:
  "\<exists>new. history (task_trigger_state_event t push s task event_name data) = history s @ new
        \<and> (\<forall>r \<in> set new. \<not> manual_override r)"
  unfolding task_trigger_state_event_def
  by (rule trigger_not_override) simp

lemma deployment_trigger_not_override:
  "\<exists>new. history (deployment_trigger_state_event t push s d event_name data) = history s @ new
        \<and> (\<forall>r \<in> set new. \<not> manual_override r)"
  unfolding deployment_trigger_state_event_def
  by (rule trigger_not_override) simp

text \<open>
  C3: for a stored row, whatever its status and whatever the target state, when the
  transaction commits: \<open>force_state\<close> answers \<open>(True, None)\<close>, stores the target's value
  (the table is not consulted), and appends one record to the history whose event data is
  \<^verbatim>\<open>{'force_set': True}\<close>. A record that \<open>transition\<close> appends carries the event data of
  its caller, and the records of the transitions that download tasks and deployments
  raise never carry that mark.
\<close>

theorem force_state_overrides_table:
  assumes row: "Model_query s model_id model_source = Some model"
    and commit: "commit_exc env = None"
  shows "fst (force_state env s model_id model_source target_state auto_notify) = (True, None)
       \<and> Model_query (snd (force_state env s model_id model_source target_state auto_notify))
             model_id model_source
           = Some (model\<lparr>m_status := Some (state_value target_state), m_updated_at := now env\<rparr>)
       \<and> history (snd (force_state env s model_id model_source target_state auto_notify))
           = history s @
             [\<lparr>ci_model_id = model_id, ci_model_source = model_source,
               ci_old_status = m_status model, ci_new_status = state_value target_state,
               ci_event = ''manual_reset'',
               ci_event_data = Some [(''force_set'', PyBool True)],
               ci_timestamp = now env\<rparr>]
       \<and> (\<forall>r \<in> set (drop (length (history s))
                      (history (snd (force_state env s model_id model_source target_state
                                       auto_notify)))). manual_override r)
       \<and> (\<forall>env' s' id' source' event event_data notify.
             \<exists>new. history (snd (transition env' s' id' source' event event_data notify))
                      = history s' @ new
                  \<and> (\<forall>r \<in> set new. ci_event_data r = event_data))
       \<and> (\<forall>t push s' task event_name data.
             \<exists>new. history (task_trigger_state_event t push s' task event_name data)
                      = history s' @ new
                  \<and> (\<forall>r \<in> set new. \<not> manual_override r))
       \<and> (\<forall>t push s' deployment event_name data.
             \<exists>new. history (deployment_trigger_state_event t push s' deployment event_name data)
                      = history s' @ new
                  \<and> (\<forall>r \<in> set new. \<not> manual_override r))"
proof -
  have src: "m_source model = model_source"
    using row by (auto simp: Model_query_def split: option.splits if_splits)
  have run: "force_state env s model_id model_source target_state auto_notify =
     ((True, None),
      (let s1 = s\<lparr>models := (models s)(model_id \<mapsto>
                     model\<lparr>m_status := Some (state_value target_state),
                           m_updated_at := now env\<rparr>)\<rparr>;
           s2 = record_state_change env s1 model_id model_source (m_status model)
                     (state_value target_state) MANUAL_RESET
                     (Some [(''force_set'', PyBool True)])
       in if auto_notify then notify_state_change env s2 model_id model_source (m_status model)
                           (state_value target_state) else s2))"
    using row commit
    by (simp add: force_state_def atomic_transaction_def force_state_block_def Let_def)
  have h: "history (snd (force_state env s model_id model_source target_state auto_notify))
           = history s @
             [\<lparr>ci_model_id = model_id, ci_model_source = model_source,
               ci_old_status = m_status model, ci_new_status = state_value target_state,
               ci_event = ''manual_reset'',
               ci_event_data = Some [(''force_set'', PyBool True)],
               ci_timestamp = now env\<rparr>]"
    by (simp add: run Let_def record_state_change_def notify_state_change_def split: option.splits)
  have a: "fst (force_state env s model_id model_source target_state auto_notify) = (True, None)"
    by (simp add: run)
  have b: "Model_query (snd (force_state env s model_id model_source target_state auto_notify))
             model_id model_source
           = Some (model\<lparr>m_status := Some (state_value target_state), m_updated_at := now env\<rparr>)"
    using src
    by (simp add: run Let_def record_state_change_def notify_state_change_def Model_query_def
        split: option.splits)
  have c: "\<forall>r \<in> set (drop (length (history s))
                      (history (snd (force_state env s model_id model_source target_state
                                       auto_notify)))). manual_override r"
    by (simp add: h manual_override_def)
  show ?thesis
    by (intro conjI allI a b h c transition_history task_trigger_not_override
        deployment_trigger_not_override)
qed

theorem force_state_overrides_table_witness:
  "Model_query ex_state ''org/m'' ''huggingface'' = Some ex_model
 \<and> commit_exc ex_env = None
 \<and> map_of TRANSITIONS (read_current_state (m_status ex_model), MANUAL_RESET) = None
 \<and> fst (force_state ex_env ex_state ''org/m'' ''huggingface'' TRAINING True) = (True, None)
 \<and> Model_query (snd (force_state ex_env ex_state ''org/m'' ''huggingface'' TRAINING True))
       ''org/m'' ''huggingface''
      = Some (ex_model\<lparr>m_status := Some ''training'', m_updated_at := 5\<rparr>)
 \<and> history (snd (force_state ex_env ex_state ''org/m'' ''huggingface'' TRAINING True))
      = [\<lparr>ci_model_id = ''org/m'', ci_model_source = ''huggingface'',
          ci_old_status = Some ''active'', ci_new_status = ''training'',
          ci_event = ''manual_reset'',
          ci_event_data = Some [(''force_set'', PyBool True)], ci_timestamp = 5\<rparr>]
 \<and> manual_override (hd (history (snd (force_state ex_env ex_state ''org/m'' ''huggingface''
                                          TRAINING True))))"
proof -
  note th = force_state_overrides_table[OF ex_row ex_commit, of TRAINING True]
  have a: "fst (force_state ex_env ex_state ''org/m'' ''huggingface'' TRAINING True) = (True, None)"
    using th by (rule conjunct1)
  have b: "Model_query (snd (force_state ex_env ex_state ''org/m'' ''huggingface'' TRAINING True))
       ''org/m'' ''huggingface''
      = Some (ex_model\<lparr>m_status := Some (state_value TRAINING), m_updated_at := now ex_env\<rparr>)"
    using th by (elim conjE)
  have c: "history (snd (force_state ex_env ex_state ''org/m'' ''huggingface'' TRAINING True))
           = history ex_state @
             [\<lparr>ci_model_id = ''org/m'', ci_model_source = ''huggingface'',
               ci_old_status = m_status ex_model, ci_new_status = state_value TRAINING,
               ci_event = ''manual_reset'',
               ci_event_data = Some [(''force_set'', PyBool True)],
               ci_timestamp = now ex_env\<rparr>]"
    using th by (elim conjE)
  have illegal: "map_of TRANSITIONS (read_current_state (m_status ex_model), MANUAL_RESET) = None"
    by (simp add: ex_current TRANSITIONS_def)
  have n: "now ex_env = 5" "history ex_state = []" "m_status ex_model = Some ''active''"
    by (simp_all add: ex_env_def ex_state_def ex_model_def)
  show ?thesis
    using a b c illegal ex_row ex_commit by (simp add: n manual_override_def)
qed

text \<open>
  C10: for a key with no stored row, \<open>transition\<close> (for every event) and \<open>force_state\<close>
  answer \<open>False\<close> and leave rows, history and queue as they are; when the transaction
  commits the message is "Model not found" and the state is unchanged. \<open>get_model_state\<close>
  is \<open>None\<close> for the missing row; for a stored row it is \<open>INACTIVE\<close> exactly when the
  status is null, is no state's value, or is \<^verbatim>\<open>inactive\<close>.
\<close>

theorem missing_model_row_fails:
  assumes missing: "Model_query s model_id model_source = None"
  shows "fst (fst (transition env s model_id model_source event event_data auto_notify)) = False
       \<and> fst (fst (force_state env s model_id model_source target_state auto_notify)) = False
       \<and> models (snd (transition env s model_id model_source event event_data auto_notify))
           = models s
       \<and> history (snd (transition env s model_id model_source event event_data auto_notify))
           = history s
       \<and> status_queue (snd (transition env s model_id model_source event event_data auto_notify))
           = status_queue s
       \<and> models (snd (force_state env s model_id model_source target_state auto_notify))
           = models s
       \<and> history (snd (force_state env s model_id model_source target_state auto_notify))
           = history s
       \<and> status_queue (snd (force_state env s model_id model_source target_state auto_notify))
           = status_queue s
       \<and> (commit_exc env = None \<longrightarrow>
            transition env s model_id model_source event event_data auto_notify
              = ((False, Some (''Model not found: '' @ model_id @ '' ('' @ model_source @ '')'')), s)
          \<and> force_state env s model_id model_source target_state auto_notify
              = ((False, Some (''Model not found: '' @ model_id @ '' ('' @ model_source @ '')'')), s))
       \<and> get_model_state s model_id model_source = None
       \<and> (\<forall>s' model. Model_query s' model_id model_source = Some model \<longrightarrow>
            (get_model_state s' model_id model_source = Some INACTIVE \<longleftrightarrow>
               m_status model = None \<or>
               (\<exists>v. m_status model = Some v \<and> (ModelState_of_value v = None \<or> v = ''inactive''))))"
proof -
  have tb: "transition_block env s model_id model_source event event_data auto_notify
     = (Inr (False, Some (''Model not found: '' @ model_id @ '' ('' @ model_source @ '')'')), s)"
    using missing by (simp add: transition_block_def)
  have fb: "force_state_block env s model_id model_source target_state auto_notify
     = (Inr (False, Some (''Model not found: '' @ model_id @ '' ('' @ model_source @ '')'')), s)"
    using missing by (simp add: force_state_block_def)
  have t: "fst (fst (transition env s model_id model_source event event_data auto_notify)) = False
       \<and> models (snd (transition env s model_id model_source event event_data auto_notify))
           = models s
       \<and> history (snd (transition env s model_id model_source event event_data auto_notify))
           = history s
       \<and> status_queue (snd (transition env s model_id model_source event event_data auto_notify))
           = status_queue s"
    by (simp add: transition_def atomic_transaction_def tb split: option.splits exc.splits)
  have f: "fst (fst (force_state env s model_id model_source target_state auto_notify)) = False
       \<and> models (snd (force_state env s model_id model_source target_state auto_notify))
           = models s
       \<and> history (snd (force_state env s model_id model_source target_state auto_notify))
           = history s
       \<and> status_queue (snd (force_state env s model_id model_source target_state auto_notify))
           = status_queue s"
    by (simp add: force_state_def atomic_transaction_def fb Let_def split: option.splits exc.splits)
  have ok: "commit_exc env = None \<longrightarrow>
            transition env s model_id model_source event event_data auto_notify
              = ((False, Some (''Model not found: '' @ model_id @ '' ('' @ model_source @ '')'')), s)
          \<and> force_state env s model_id model_source target_state auto_notify
              = ((False, Some (''Model not found: '' @ model_id @ '' ('' @ model_source @ '')'')), s)"
    by (simp add: transition_def force_state_def atomic_transaction_def tb fb)
  have g: "get_model_state s model_id model_source = None"
    using missing by (simp add: get_model_state_def)
  have parse: "\<And>v. ModelState_of_value v = Some INACTIVE \<longleftrightarrow> v = ''inactive''"
    by (auto simp add: ModelState_of_value_def split: if_splits)
  have d: "\<forall>s' model. Model_query s' model_id model_source = Some model \<longrightarrow>
            (get_model_state s' model_id model_source = Some INACTIVE \<longleftrightarrow>
               m_status model = None \<or>
               (\<exists>v. m_status model = Some v \<and> (ModelState_of_value v = None \<or> v = ''inactive'')))"
  proof (intro allI impI)
    fix s' model
    assume r: "Model_query s' model_id model_source = Some model"
    show "get_model_state s' model_id model_source = Some INACTIVE \<longleftrightarrow>
               m_status model = None \<or>
               (\<exists>v. m_status model = Some v \<and> (ModelState_of_value v = None \<or> v = ''inactive''))"
    proof (cases "m_status model")
      case None
      then show ?thesis using r by (simp add: get_model_state_def read_current_state_def)
    next
      case (Some v)
      show ?thesis
      proof (cases "ModelState_of_value v")
        case None
        then show ?thesis using r Some
          by (simp add: get_model_state_def read_current_state_def)
      next
        case (Some cs)
        have "v \<noteq> []" using Some by (auto simp add: ModelState_of_value_def split: if_splits)
        then show ?thesis using r Some \<open>m_status model = Some v\<close> parse[of v]
          by (auto simp add: get_model_state_def read_current_state_def)
      qed
    qed
  qed
  show ?thesis using t f ok g d by (intro conjI) simp_all
qed

theorem missing_model_row_fails_witness:
  "Model_query ex_state ''org/old'' ''huggingface'' = None
 \<and> commit_exc ex_env = None
 \<and> transition ex_env ex_state ''org/old'' ''huggingface'' DOWNLOAD_STARTED None True
      = ((False, Some ''Model not found: org/old (huggingface)''), ex_state)
 \<and> force_state ex_env ex_state ''org/old'' ''huggingface'' INACTIVE True
      = ((False, Some ''Model not found: org/old (huggingface)''), ex_state)
 \<and> get_model_state ex_state ''org/old'' ''huggingface'' = None
 \<and> Model_query ex_state_deprecated ''org/old'' ''huggingface''
      = Some \<lparr>m_source = ''huggingface'', m_status = Some ''deprecated'', m_updated_at = 0\<rparr>
 \<and> ModelState_of_value ''deprecated'' = None
 \<and> get_model_state ex_state_deprecated ''org/old'' ''huggingface'' = Some INACTIVE"
proof -
  have missing: "Model_query ex_state ''org/old'' ''huggingface'' = None"
    by (simp add: Model_query_def ex_state_def)
  have row: "Model_query ex_state_deprecated ''org/old'' ''huggingface''
      = Some \<lparr>m_source = ''huggingface'', m_status = Some ''deprecated'', m_updated_at = 0\<rparr>"
    by (simp add: Model_query_def ex_state_deprecated_def)
  have p: "ModelState_of_value ''deprecated'' = None"
    by (simp add: ModelState_of_value_def)
  note th = missing_model_row_fails[OF missing, of ex_env DOWNLOAD_STARTED None True INACTIVE]
  have ok: "commit_exc ex_env = None \<longrightarrow>
            transition ex_env ex_state ''org/old'' ''huggingface'' DOWNLOAD_STARTED None True
              = ((False, Some (''Model not found: '' @ ''org/old'' @ '' ('' @ ''huggingface'' @ '')'')), ex_state)
          \<and> force_state ex_env ex_state ''org/old'' ''huggingface'' INACTIVE True
              = ((False, Some (''Model not found: '' @ ''org/old'' @ '' ('' @ ''huggingface'' @ '')'')), ex_state)"
    using th by (elim conjE)
  have g: "get_model_state ex_state ''org/old'' ''huggingface'' = None"
    using th by (elim conjE)
  have d: "\<forall>s' model. Model_query s' ''org/old'' ''huggingface'' = Some model \<longrightarrow>
            (get_model_state s' ''org/old'' ''huggingface'' = Some INACTIVE \<longleftrightarrow>
               m_status model = None \<or>
               (\<exists>v. m_status model = Some v \<and> (ModelState_of_value v = None \<or> v = ''inactive'')))"
    using th by (elim conjE)
  have i: "get_model_state ex_state_deprecated ''org/old'' ''huggingface'' = Some INACTIVE"
    using d[rule_format, OF row] p by simp
  show ?thesis
    using missing ex_commit ok g row p i by simp
qed

section \<open>Pausing a download\<close>

lemma find_Some_holds: "find P xs = Some x \<Longrightarrow> P x"
  by (induction xs) (auto split: if_splits)

lemma find_replace_same:
  "find (\<lambda>u. key u = k) xs = Some x \<Longrightarrow> key y = k \<Longrightarrow>
   find (\<lambda>u. key u = k) (map (\<lambda>u. if key u = k then y else u) xs) = Some y"
  by (induction xs) (auto split: if_splits)

lemma find_replace_other:
  "k' \<noteq> k \<Longrightarrow> key y = k \<Longrightarrow>
   find (\<lambda>u. key u = k') (map (\<lambda>u. if key u = k then y else u) xs) = find (\<lambda>u. key u = k') xs"
  by (induction xs) (auto split: if_splits)

lemma task_get_id: "task_get s task_id = Some task \<Longrightarrow> t_id task = task_id"
  unfolding task_get_def by (drule find_Some_holds) simp

lemma task_get_put_same:
  "task_get s task_id = Some task \<Longrightarrow> t_id task' = task_id \<Longrightarrow>
   task_get (task_put s task') task_id = Some task'"
  unfolding task_get_def task_put_def
  using find_replace_same[of t_id task_id "tasks s" task task'] by simp

lemma task_get_put_other:
  "other \<noteq> t_id task' \<Longrightarrow> task_get (task_put s task') other = task_get s other"
  unfolding task_get_def task_put_def
  using find_replace_other[of other "t_id task'" t_id task' "tasks s"] by simp

lemma task_put_frame:
  "models (task_put s task') = models s" "history (task_put s task') = history s"
  "status_queue (task_put s task') = status_queue s" "raised (task_put s task') = raised s"
  "fs (task_put s task') = fs s" "deployments (task_put s task') = deployments s"
  "error_log (task_put s task') = error_log s"
  by (simp_all add: task_put_def)

text \<open>
  C7: pausing a task that is downloading sets its status to \<^verbatim>\<open>paused\<close>, raises no event
  and leaves the models (so the state read for the task's model), the history and the
  queue as they are; pausing a task in any other status fails with a
  \<open>ValidationError\<close> and changes nothing, as does pausing an unknown task
  (\<open>NotFoundError\<close>).
\<close>

theorem pause_sets_paused_without_event:
  "(\<forall>task. task_get s task_id = Some task \<and> t_status task = ''downloading'' \<longrightarrow>
      fst (service_pause_download t s task_id)
        = Inr [(''message'', PyStr ''download has paused''), (''task_id'', PyStr task_id)]
    \<and> task_get (snd (service_pause_download t s task_id)) task_id
        = Some (task\<lparr>t_status := ''paused'', t_updated_at := Some t\<rparr>)
    \<and> (\<forall>other. other \<noteq> task_id \<longrightarrow>
          task_get (snd (service_pause_download t s task_id)) other = task_get s other)
    \<and> raised (snd (service_pause_download t s task_id)) = raised s
    \<and> models (snd (service_pause_download t s task_id)) = models s
    \<and> history (snd (service_pause_download t s task_id)) = history s
    \<and> status_queue (snd (service_pause_download t s task_id)) = status_queue s
    \<and> get_model_state (snd (service_pause_download t s task_id)) (t_model_id task)
          (t_model_source task)
        = get_model_state s (t_model_id task) (t_model_source task))
 \<and> (\<forall>task. task_get s task_id = Some task \<and> t_status task \<noteq> ''downloading'' \<longrightarrow>
      service_pause_download t s task_id
        = (Inl (ValidationError (Text (''task status '' @ t_status task @ '' cannot pause''))), s))
 \<and> (task_get s task_id = None \<longrightarrow>
      service_pause_download t s task_id
        = (Inl (NotFoundError (Text (''download task '' @ task_id @ '' does not exist''))), s))"
proof (intro conjI allI impI)
  fix task
  assume a: "task_get s task_id = Some task \<and> t_status task = ''downloading''"
  then have g: "task_get s task_id = Some task" and d: "t_status task = ''downloading''" by auto
  have idt: "t_id task = task_id" using g by (rule task_get_id)
  have run: "service_pause_download t s task_id
     = (Inr [(''message'', PyStr ''download has paused''), (''task_id'', PyStr task_id)],
        task_put s (task\<lparr>t_status := ''paused'', t_updated_at := Some t\<rparr>))"
    using g d by (simp add: service_pause_download_def pause_download_def)
  show "fst (service_pause_download t s task_id)
        = Inr [(''message'', PyStr ''download has paused''), (''task_id'', PyStr task_id)]"
    by (simp add: run)
  show "task_get (snd (service_pause_download t s task_id)) task_id
        = Some (task\<lparr>t_status := ''paused'', t_updated_at := Some t\<rparr>)"
    using task_get_put_same[OF g, of "task\<lparr>t_status := ''paused'', t_updated_at := Some t\<rparr>"] idt
    by (simp add: run)
  show "raised (snd (service_pause_download t s task_id)) = raised s"
    by (simp add: run task_put_frame)
  show "models (snd (service_pause_download t s task_id)) = models s"
    by (simp add: run task_put_frame)
  show "history (snd (service_pause_download t s task_id)) = history s"
    by (simp add: run task_put_frame)
  show "status_queue (snd (service_pause_download t s task_id)) = status_queue s"
    by (simp add: run task_put_frame)
  show "get_model_state (snd (service_pause_download t s task_id)) (t_model_id task)
          (t_model_source task)
        = get_model_state s (t_model_id task) (t_model_source task)"
    by (simp add: run get_model_state_def Model_query_def task_put_frame)
  fix other assume "other \<noteq> task_id"
  then show "task_get (snd (service_pause_download t s task_id)) other = task_get s other"
    using task_get_put_other[of other "task\<lparr>t_status := ''paused'', t_updated_at := Some t\<rparr>" s] idt
    by (simp add: run)
next
  fix task
  assume "task_get s task_id = Some task \<and> t_status task \<noteq> ''downloading''"
  then show "service_pause_download t s task_id
        = (Inl (ValidationError (Text (''task status '' @ t_status task @ '' cannot pause''))), s)"
    by (simp add: service_pause_download_def)
next
  assume "task_get s task_id = None"
  then show "service_pause_download t s task_id
        = (Inl (NotFoundError (Text (''download task '' @ task_id @ '' does not exist''))), s)"
    by (simp add: service_pause_download_def)
qed

theorem pause_sets_paused_without_event_witness:
  "task_get ex_download_state ''t1'' = Some ex_task
 \<and> t_status ex_task = ''downloading''
 \<and> fst (service_pause_download 9 ex_download_state ''t1'')
      = Inr [(''message'', PyStr ''download has paused''), (''task_id'', PyStr ''t1'')]
 \<and> task_get (snd (service_pause_download 9 ex_download_state ''t1'')) ''t1''
      = Some (ex_task\<lparr>t_status := ''paused'', t_updated_at := Some 9\<rparr>)
 \<and> raised (snd (service_pause_download 9 ex_download_state ''t1'')) = []
 \<and> get_model_state (snd (service_pause_download 9 ex_download_state ''t1'')) ''org/m''
      ''huggingface'' = Some DOWNLOADING
 \<and> task_get (snd (service_pause_download 9 ex_download_state ''t1'')) ''t1''
      = Some (ex_task\<lparr>t_status := ''paused'', t_updated_at := Some 9\<rparr>)
 \<and> t_status (ex_task\<lparr>t_status := ''paused'', t_updated_at := Some 9\<rparr>) \<noteq> ''downloading''
 \<and> service_pause_download 10 (snd (service_pause_download 9 ex_download_state ''t1'')) ''t1''
      = (Inl (ValidationError (Text ''task status paused cannot pause'')),
         snd (service_pause_download 9 ex_download_state ''t1''))
 \<and> task_get ex_download_state ''t2'' = None
 \<and> service_pause_download 9 ex_download_state ''t2''
      = (Inl (NotFoundError (Text ''download task t2 does not exist'')), ex_download_state)"
proof -
  have g: "task_get ex_download_state ''t1'' = Some ex_task"
    by (simp add: task_get_def ex_download_state_def ex_task_def)
  have d: "t_status ex_task = ''downloading''" by (simp add: ex_task_def)
  have none: "task_get ex_download_state ''t2'' = None"
    by (simp add: task_get_def ex_download_state_def ex_task_def)
  have m: "get_model_state ex_download_state ''org/m'' ''huggingface'' = Some DOWNLOADING"
    by (simp add: get_model_state_def Model_query_def ex_download_state_def
        ex_downloading_model_def read_current_state_def ModelState_of_value_def)
  have ids: "t_model_id ex_task = ''org/m''" "t_model_source ex_task = ''huggingface''"
    "raised ex_download_state = []"
    by (simp_all add: ex_task_def ex_download_state_def)
  note th1 = pause_sets_paused_without_event[of ex_download_state "''t1''" 9]
  have first: "fst (service_pause_download 9 ex_download_state ''t1'')
        = Inr [(''message'', PyStr ''download has paused''), (''task_id'', PyStr ''t1'')]
    \<and> task_get (snd (service_pause_download 9 ex_download_state ''t1'')) ''t1''
        = Some (ex_task\<lparr>t_status := ''paused'', t_updated_at := Some 9\<rparr>)
    \<and> raised (snd (service_pause_download 9 ex_download_state ''t1'')) = []
    \<and> get_model_state (snd (service_pause_download 9 ex_download_state ''t1'')) ''org/m''
          ''huggingface'' = Some DOWNLOADING"
    using th1[THEN conjunct1, rule_format, of ex_task] g d m ids by simp
  have third: "service_pause_download 9 ex_download_state ''t2''
        = (Inl (NotFoundError (Text ''download task t2 does not exist'')), ex_download_state)"
    using pause_sets_paused_without_event[of ex_download_state "''t2''" 9, THEN conjunct2,
        THEN conjunct2] none by simp
  note th2 = pause_sets_paused_without_event[of "snd (service_pause_download 9 ex_download_state ''t1'')"
      "''t1''" 10]
  have second: "service_pause_download 10 (snd (service_pause_download 9 ex_download_state ''t1'')) ''t1''
      = (Inl (ValidationError (Text ''task status paused cannot pause'')),
         snd (service_pause_download 9 ex_download_state ''t1''))"
    using th2[THEN conjunct2, THEN conjunct1, rule_format,
        of "ex_task\<lparr>t_status := ''paused'', t_updated_at := Some 9\<rparr>"] first
    by simp
  show ?thesis using g d first second none third by simp
qed

lemma transition_frame:
  "tasks (snd (transition env s model_id model_source event event_data auto_notify)) = tasks s
 \<and> deployments (snd (transition env s model_id model_source event event_data auto_notify)) = deployments s
 \<and> fs (snd (transition env s model_id model_source event event_data auto_notify)) = fs s
 \<and> raised (snd (transition env s model_id model_source event event_data auto_notify)) = raised s"
  by (auto simp add: transition_def atomic_transaction_def transition_block_def Let_def rollback_def
        record_state_change_def notify_state_change_def
        split: option.splits sum.splits exc.splits prod.splits if_splits)

lemma trigger_frame:
  "tasks (snd (trigger_model_event env s model_id model_source event_name event_data)) = tasks s
 \<and> deployments (snd (trigger_model_event env s model_id model_source event_name event_data)) = deployments s
 \<and> fs (snd (trigger_model_event env s model_id model_source event_name event_data)) = fs s
 \<and> raised (snd (trigger_model_event env s model_id model_source event_name event_data))
     = raised s @ [(model_id, model_source, event_name)]"
proof (cases "ModelEvent_of_value event_name")
  case None
  then show ?thesis by (simp add: trigger_model_event_def)
next
  case (Some ev)
  from transition_frame[of env "s\<lparr>raised := raised s @ [(model_id, model_source, event_name)]\<rparr>"
      model_id model_source ev event_data True]
  show ?thesis using Some by (simp add: trigger_model_event_def)
qed

lemma task_trigger_frame:
  "tasks (task_trigger_state_event t push s task event_name data) = tasks s"
  "deployments (task_trigger_state_event t push s task event_name data) = deployments s"
  "fs (task_trigger_state_event t push s task event_name data) = fs s"
  "raised (task_trigger_state_event t push s task event_name data)
     = raised s @ [(t_model_id task, t_model_source task, event_name)]"
  unfolding task_trigger_state_event_def using trigger_frame by blast+

lemma remove_files_frame:
  "tasks (remove_download_files env s p) = tasks s"
  "raised (remove_download_files env s p) = raised s"
  "models (remove_download_files env s p) = models s"
  by (simp_all add: remove_download_files_def split: option.splits)

lemma task_get_cong: "tasks s' = tasks s \<Longrightarrow> task_get s' = task_get s"
  by (simp add: task_get_def fun_eq_iff)

text \<open>
  C8, as the code has it: cancelling a task that is neither completed nor cancelled sets
  its status to \<^verbatim>\<open>cancelled\<close>, raises \<^verbatim>\<open>download_cancelled\<close> for the task's model and
  answers success, whatever becomes of the files. What is at \<^verbatim>\<open>file_path\<close> is removed
  when the removal succeeds: a file (or a link to one) is removed, a directory is
  removed with every path below it, and no other path changes. A symbolic link to a
  directory is never removed, and when the removal raises the file system is left as
  the failed call leaves it. A second cancel of the task fails with a
  \<open>ValidationError\<close> that names the status and leaves the state as it is.
\<close>

theorem cancel_download_effects:
  assumes found: "task_get s task_id = Some task"
    and not_completed: "t_status task \<noteq> ''completed''"
    and not_cancelled: "t_status task \<noteq> ''cancelled''"
  shows "fst (service_cancel_download t push env s task_id)
           = Inr [(''message'', PyStr ''download has been cancelled''), (''task_id'', PyStr task_id)]
       \<and> task_get (snd (service_cancel_download t push env s task_id)) task_id
           = Some (task\<lparr>t_status := ''cancelled'', t_updated_at := Some t\<rparr>)
       \<and> raised (snd (service_cancel_download t push env s task_id))
           = raised s @ [(t_model_id task, t_model_source task, ''download_cancelled'')]
       \<and> (\<forall>p. t_file_path task = Some p \<and> p \<noteq> []
              \<and> (fs s p = Some File \<or> fs s p = Some Link_to_file)
              \<and> os_remove_exc env = None \<longrightarrow>
             fs (snd (service_cancel_download t push env s task_id)) = (fs s)(p := None))
       \<and> (\<forall>p. t_file_path task = Some p \<and> p \<noteq> [] \<and> fs s p = Some Dir
              \<and> rmtree_exc env = None \<longrightarrow>
             fs (snd (service_cancel_download t push env s task_id)) p = None
           \<and> (\<forall>q. is_below p q \<longrightarrow>
                 fs (snd (service_cancel_download t push env s task_id)) q = None)
           \<and> (\<forall>q. q \<noteq> p \<and> \<not> is_below p q \<longrightarrow>
                 fs (snd (service_cancel_download t push env s task_id)) q = fs s q))
       \<and> (\<forall>p. t_file_path task = Some p \<and> p \<noteq> [] \<and> fs s p = Some Link_to_dir \<longrightarrow>
             fs (snd (service_cancel_download t push env s task_id)) = fs s)
       \<and> (\<forall>p e. t_file_path task = Some p \<and> p \<noteq> []
              \<and> (fs s p = Some File \<or> fs s p = Some Link_to_file)
              \<and> os_remove_exc env = Some e \<longrightarrow>
             fs (snd (service_cancel_download t push env s task_id)) = fs s)
       \<and> (\<forall>p e left. t_file_path task = Some p \<and> p \<noteq> [] \<and> fs s p = Some Dir
              \<and> rmtree_exc env = Some (e, left) \<longrightarrow>
             fs (snd (service_cancel_download t push env s task_id)) = left)
       \<and> (\<forall>t' push' env'.
             service_cancel_download t' push' env'
               (snd (service_cancel_download t push env s task_id)) task_id
               = (Inl (ValidationError (Text ''task status cancelled cannot cancel'')),
                  snd (service_cancel_download t push env s task_id)))"
proof -
  define task' where "task' = task\<lparr>t_status := ''cancelled'', t_updated_at := Some t\<rparr>"
  define s1 where "s1 = task_trigger_state_event t push s task' ''download_cancelled''
                          [(''cancelled_at'', PyTime t)]"
  define s3 where "s3 = remove_download_files env (task_put s1 task') (t_file_path task')"
  have idt: "t_id task = task_id" using found by (rule task_get_id)
  have run: "service_cancel_download t push env s task_id
      = (Inr [(''message'', PyStr ''download has been cancelled''), (''task_id'', PyStr task_id)], s3)"
    using found not_completed not_cancelled
    by (simp add: service_cancel_download_def cancel_download_def Let_def s3_def s1_def task'_def)
  have s1_tasks: "tasks s1 = tasks s" and s1_fs: "fs s1 = fs s"
    and s1_raised: "raised s1 = raised s @ [(t_model_id task, t_model_source task, ''download_cancelled'')]"
    by (simp_all add: s1_def task_trigger_frame task'_def)
  have g1: "task_get s1 task_id = Some task"
    using found task_get_cong[OF s1_tasks] by simp
  have g2: "task_get (task_put s1 task') task_id = Some task'"
    using task_get_put_same[OF g1, of task'] idt by (simp add: task'_def)
  have g3: "task_get s3 task_id = Some task'"
    using g2 task_get_cong[of s3 "task_put s1 task'"] by (simp add: s3_def remove_files_frame)
  have r3: "raised s3 = raised s @ [(t_model_id task, t_model_source task, ''download_cancelled'')]"
    by (simp add: s3_def remove_files_frame task_put_frame s1_raised)
  have fp: "t_file_path task' = t_file_path task" by (simp add: task'_def)
  have fs2: "fs (task_put s1 task') = fs s" by (simp add: task_put_frame s1_fs)
  have rm_file: "\<forall>p. t_file_path task = Some p \<and> p \<noteq> []
              \<and> (fs s p = Some File \<or> fs s p = Some Link_to_file)
              \<and> os_remove_exc env = None \<longrightarrow>
             fs s3 = (fs s)(p := None)"
    by (auto simp add: s3_def fp remove_download_files_def fs2 os_remove_def)
  have rm_dir: "\<forall>p. t_file_path task = Some p \<and> p \<noteq> [] \<and> fs s p = Some Dir
              \<and> rmtree_exc env = None \<longrightarrow>
             fs s3 p = None \<and> (\<forall>q. is_below p q \<longrightarrow> fs s3 q = None)
           \<and> (\<forall>q. q \<noteq> p \<and> \<not> is_below p q \<longrightarrow> fs s3 q = fs s q)"
    by (simp add: s3_def fp remove_download_files_def fs2 shutil_rmtree_def)
  have rm_link: "\<forall>p. t_file_path task = Some p \<and> p \<noteq> [] \<and> fs s p = Some Link_to_dir \<longrightarrow>
             fs s3 = fs s"
    by (simp add: s3_def fp remove_download_files_def fs2 shutil_rmtree_def)
  have fail_file: "\<forall>p e. t_file_path task = Some p \<and> p \<noteq> []
              \<and> (fs s p = Some File \<or> fs s p = Some Link_to_file)
              \<and> os_remove_exc env = Some e \<longrightarrow>
             fs s3 = fs s"
    by (auto simp add: s3_def fp remove_download_files_def fs2 os_remove_def)
  have fail_dir: "\<forall>p e left. t_file_path task = Some p \<and> p \<noteq> [] \<and> fs s p = Some Dir
              \<and> rmtree_exc env = Some (e, left) \<longrightarrow>
             fs s3 = left"
    by (simp add: s3_def fp remove_download_files_def fs2 shutil_rmtree_def)
  have again: "\<forall>t' push' env'. service_cancel_download t' push' env' s3 task_id
               = (Inl (ValidationError (Text ''task status cancelled cannot cancel'')), s3)"
    using g3 by (simp add: service_cancel_download_def task'_def)
  show ?thesis
    unfolding run fst_conv snd_conv
    using g3 r3 rm_file rm_dir rm_link fail_file fail_dir again unfolding task'_def
    by (intro conjI refl) assumption+
qed

theorem cancel_download_effects_witness:
  "task_get ex_download_state ''t1'' = Some ex_task
 \<and> t_status ex_task \<noteq> ''completed'' \<and> t_status ex_task \<noteq> ''cancelled''
 \<and> t_file_path ex_task = Some ''/data/huggingface/org_m''
 \<and> fs ex_download_state ''/data/huggingface/org_m'' = Some Dir
 \<and> rmtree_exc ex_removal_env = None \<and> os_remove_exc ex_removal_env = None
 \<and> fst (service_cancel_download 9 None ex_removal_env ex_download_state ''t1'')
      = Inr [(''message'', PyStr ''download has been cancelled''), (''task_id'', PyStr ''t1'')]
 \<and> task_get (snd (service_cancel_download 9 None ex_removal_env ex_download_state ''t1'')) ''t1''
      = Some (ex_task\<lparr>t_status := ''cancelled'', t_updated_at := Some 9\<rparr>)
 \<and> raised (snd (service_cancel_download 9 None ex_removal_env ex_download_state ''t1''))
      = [(''org/m'', ''huggingface'', ''download_cancelled'')]
 \<and> fs (snd (service_cancel_download 9 None ex_removal_env ex_download_state ''t1''))
      ''/data/huggingface/org_m'' = None
 \<and> is_below ''/data/huggingface/org_m'' ''/data/huggingface/org_m/model.bin''
 \<and> fs (snd (service_cancel_download 9 None ex_removal_env ex_download_state ''t1''))
      ''/data/huggingface/org_m/model.bin'' = None
 \<and> fs (snd (service_cancel_download 9 None ex_removal_env ex_download_state ''t1''))
      ''/data/huggingface/org_mx'' = Some File
 \<and> service_cancel_download 10 None ex_removal_env
      (snd (service_cancel_download 9 None ex_removal_env ex_download_state ''t1'')) ''t1''
      = (Inl (ValidationError (Text ''task status cancelled cannot cancel'')),
         snd (service_cancel_download 9 None ex_removal_env ex_download_state ''t1''))
 \<and> task_get ex_download_state_file ''t1'' = Some ex_task
 \<and> fs ex_download_state_file ''/data/huggingface/org_m'' = Some File
 \<and> fs (snd (service_cancel_download 9 None ex_removal_env ex_download_state_file ''t1''))
      = [''/data/huggingface/other'' \<mapsto> File]
 \<and> task_get ex_download_state_link ''t1'' = Some ex_task
 \<and> fs ex_download_state_link ''/data/huggingface/org_m'' = Some Link_to_dir
 \<and> fs (snd (service_cancel_download 9 None ex_removal_env ex_download_state_link ''t1''))
      = fs ex_download_state_link
 \<and> rmtree_exc ex_removal_denied
      = Some (''[Errno 13] Permission denied'', fs ex_download_state)
 \<and> fs (snd (service_cancel_download 9 None ex_removal_denied ex_download_state ''t1''))
      = fs ex_download_state"
proof -
  have nc: "t_status ex_task \<noteq> ''completed''" "t_status ex_task \<noteq> ''cancelled''"
    by (simp_all add: ex_task_def)
  have fp: "t_file_path ex_task = Some ''/data/huggingface/org_m''" by (simp add: ex_task_def)
  have d: "fs ex_download_state ''/data/huggingface/org_m'' = Some Dir"
    by (simp add: ex_download_state_def)
  have ok: "rmtree_exc ex_removal_env = None" "os_remove_exc ex_removal_env = None"
    by (simp_all add: ex_removal_env_def)
  have ids: "t_model_id ex_task = ''org/m''" "t_model_source ex_task = ''huggingface''"
    "raised ex_download_state = []"
    by (simp_all add: ex_task_def ex_download_state_def)
  have below: "is_below ''/data/huggingface/org_m'' ''/data/huggingface/org_m/model.bin''"
    "\<not> is_below ''/data/huggingface/org_m'' ''/data/huggingface/org_mx''"
    by (simp_all add: is_below_def)
  have other: "fs ex_download_state ''/data/huggingface/org_mx'' = Some File"
    by (simp add: ex_download_state_def)
  note th = cancel_download_effects[OF ex_task_found nc, where t = 9 and push = None
      and env = ex_removal_env]
  have r1: "fst (service_cancel_download 9 None ex_removal_env ex_download_state ''t1'')
      = Inr [(''message'', PyStr ''download has been cancelled''), (''task_id'', PyStr ''t1'')]"
    using th by (rule conjunct1)
  have r2: "task_get (snd (service_cancel_download 9 None ex_removal_env ex_download_state ''t1'')) ''t1''
      = Some (ex_task\<lparr>t_status := ''cancelled'', t_updated_at := Some 9\<rparr>)"
    using th[THEN conjunct2, THEN conjunct1] .
  have r3: "raised (snd (service_cancel_download 9 None ex_removal_env ex_download_state ''t1''))
      = [(''org/m'', ''huggingface'', ''download_cancelled'')]"
    using th[THEN conjunct2, THEN conjunct2, THEN conjunct1] by (simp add: ids)
  have r5: "fs (snd (service_cancel_download 9 None ex_removal_env ex_download_state ''t1''))
               ''/data/huggingface/org_m'' = None
           \<and> (\<forall>q. is_below ''/data/huggingface/org_m'' q \<longrightarrow>
                 fs (snd (service_cancel_download 9 None ex_removal_env ex_download_state ''t1'')) q
                   = None)
           \<and> (\<forall>q. q \<noteq> ''/data/huggingface/org_m'' \<and> \<not> is_below ''/data/huggingface/org_m'' q \<longrightarrow>
                 fs (snd (service_cancel_download 9 None ex_removal_env ex_download_state ''t1'')) q
                   = fs ex_download_state q)"
    using th[THEN conjunct2, THEN conjunct2, THEN conjunct2, THEN conjunct2, THEN conjunct1,
        rule_format, of "''/data/huggingface/org_m''"] fp d ok by simp
  have r5a: "fs (snd (service_cancel_download 9 None ex_removal_env ex_download_state ''t1''))
      ''/data/huggingface/org_m/model.bin'' = None"
    using r5 below(1) by blast
  have r5b: "fs (snd (service_cancel_download 9 None ex_removal_env ex_download_state ''t1''))
      ''/data/huggingface/org_mx'' = Some File"
    using r5[THEN conjunct2, THEN conjunct2, rule_format, of "''/data/huggingface/org_mx''"]
      below(2) other by simp
  have r6: "service_cancel_download 10 None ex_removal_env
      (snd (service_cancel_download 9 None ex_removal_env ex_download_state ''t1'')) ''t1''
      = (Inl (ValidationError (Text ''task status cancelled cannot cancel'')),
         snd (service_cancel_download 9 None ex_removal_env ex_download_state ''t1''))"
    using th[THEN conjunct2, THEN conjunct2, THEN conjunct2, THEN conjunct2, THEN conjunct2,
        THEN conjunct2, THEN conjunct2, THEN conjunct2]
    by blast
  have g2: "task_get ex_download_state_file ''t1'' = Some ex_task"
    by (simp add: task_get_def ex_download_state_file_def ex_download_state_def ex_task_def)
  have f2: "fs ex_download_state_file ''/data/huggingface/org_m'' = Some File"
    by (simp add: ex_download_state_file_def)
  have r7: "fs (snd (service_cancel_download 9 None ex_removal_env ex_download_state_file ''t1''))
      = (fs ex_download_state_file)(''/data/huggingface/org_m'' := None)"
    using cancel_download_effects[OF g2 nc, where t = 9 and push = None and env = ex_removal_env,
        THEN conjunct2, THEN conjunct2, THEN conjunct2, THEN conjunct1, rule_format,
        of "''/data/huggingface/org_m''"] fp f2 ok
    by simp
  have r7a: "(fs ex_download_state_file)(''/data/huggingface/org_m'' := None)
      = [''/data/huggingface/other'' \<mapsto> File]"
    by (auto simp add: ex_download_state_file_def fun_eq_iff)
  have g3: "task_get ex_download_state_link ''t1'' = Some ex_task"
    by (simp add: task_get_def ex_download_state_link_def ex_download_state_def ex_task_def)
  have f3: "fs ex_download_state_link ''/data/huggingface/org_m'' = Some Link_to_dir"
    by (simp add: ex_download_state_link_def)
  have r8: "fs (snd (service_cancel_download 9 None ex_removal_env ex_download_state_link ''t1''))
      = fs ex_download_state_link"
    using cancel_download_effects[OF g3 nc, where t = 9 and push = None and env = ex_removal_env,
        THEN conjunct2, THEN conjunct2, THEN conjunct2, THEN conjunct2, THEN conjunct2,
        THEN conjunct1, rule_format, of "''/data/huggingface/org_m''"] fp f3
    by simp
  have den: "rmtree_exc ex_removal_denied
      = Some (''[Errno 13] Permission denied'', fs ex_download_state)"
    by (simp add: ex_removal_denied_def)
  have r9: "fs (snd (service_cancel_download 9 None ex_removal_denied ex_download_state ''t1''))
      = fs ex_download_state"
    using cancel_download_effects[OF ex_task_found nc, where t = 9 and push = None
        and env = ex_removal_denied,
        THEN conjunct2, THEN conjunct2, THEN conjunct2, THEN conjunct2, THEN conjunct2,
        THEN conjunct2, THEN conjunct2, THEN conjunct1, rule_format,
        of "''/data/huggingface/org_m''" "''[Errno 13] Permission denied''"
           "fs ex_download_state"] fp d den
    by simp
  show ?thesis
    using ex_task_found nc fp d ok r1 r2 r3 r5 below(1) r5a r5b r6 g2 f2 r7 r7a g3 f3 r8 den r9
    by simp
qed

lemmas ex_cancel_defs =
  service_cancel_download_def cancel_download_def task_get_def task_put_def Let_def
  task_trigger_state_event_def trigger_model_event_def ModelEvent_of_value_def
  transition_def atomic_transaction_def transition_block_def Model_query_def
  read_current_state_def ModelState_of_value_def can_transition_def
  get_next_state_def TRANSITIONS_def service_env_def record_state_change_def
  notify_state_change_def remove_download_files_def os_remove_def shutil_rmtree_def
  ex_download_state_def ex_download_state_link_def ex_downloading_model_def ex_task_def
  ex_removal_env_def ex_removal_denied_def

text \<open>
  C8 as stated fails: the task's \<^verbatim>\<open>file_path\<close> is a symbolic link to the directory that
  holds the files, or the removal of the directory is refused; the cancel answers
  success and sets \<^verbatim>\<open>cancelled\<close>, and what was at \<^verbatim>\<open>file_path\<close> is still there.
\<close>

theorem cancel_keeps_files_counterexample:
  "task_get ex_download_state_link ''t1'' = Some ex_task
 \<and> t_status ex_task = ''downloading''
 \<and> t_file_path ex_task = Some ''/data/huggingface/org_m''
 \<and> fs ex_download_state_link ''/data/huggingface/org_m'' = Some Link_to_dir
 \<and> fst (service_cancel_download 9 None ex_removal_env ex_download_state_link ''t1'')
      = Inr [(''message'', PyStr ''download has been cancelled''), (''task_id'', PyStr ''t1'')]
 \<and> map_option t_status
      (task_get (snd (service_cancel_download 9 None ex_removal_env ex_download_state_link ''t1''))
         ''t1'') = Some ''cancelled''
 \<and> fs (snd (service_cancel_download 9 None ex_removal_env ex_download_state_link ''t1''))
      ''/data/huggingface/org_m'' = Some Link_to_dir
 \<and> fs (snd (service_cancel_download 9 None ex_removal_env ex_download_state_link ''t1''))
      ''/mnt/models/org_m/model.bin'' = Some File
 \<and> fs ex_download_state ''/data/huggingface/org_m'' = Some Dir
 \<and> fst (service_cancel_download 9 None ex_removal_denied ex_download_state ''t1'')
      = Inr [(''message'', PyStr ''download has been cancelled''), (''task_id'', PyStr ''t1'')]
 \<and> fs (snd (service_cancel_download 9 None ex_removal_denied ex_download_state ''t1''))
      ''/data/huggingface/org_m'' = Some Dir
 \<and> fs (snd (service_cancel_download 9 None ex_removal_denied ex_download_state ''t1''))
      ''/data/huggingface/org_m/model.bin'' = Some File"
  by (simp add: ex_cancel_defs)

section \<open>Progress of a download\<close>









section \<open>Creating a download task\<close>

lemma find_of_filter_single: "filter P xs = [x] \<Longrightarrow> find P xs = Some x"
  by (induction xs) (auto split: if_splits)

lemma validate_not_conflict: "validate_model_exists env model_id source \<noteq> Some (ConflictError m)"
  by (simp add: validate_model_exists_def get_model_info_def split: hub_outcome.splits)

text \<open>
  C6, as the code has it: when the task that \<^verbatim>\<open>get_by_model\<close> returns for the model key
  (the key's only task, if it has one task) is pending or downloading,
  \<open>create_download_task\<close> fails, with an error that is never a \<open>ConflictError\<close>, and
  stores no task. For source \<^verbatim>\<open>huggingface\<close> and a model that the hub knows the error is
  the \<open>ValidationError\<close> "already has a pending or downloading download task"; for a
  model that the hub does not know it is the \<open>ModelNotFoundError\<close> of the client, and for
  a failure of the hub an \<open>ExternalServiceError\<close>. For source \<^verbatim>\<open>ollama\<close> it is the
  \<^verbatim>\<open>AttributeError\<close> of the call of a method that the client does not have.
\<close>

theorem create_rejects_active_task:
  assumes existing: "get_by_model s model_id source = Some existing_task"
    and active: "t_status existing_task = ''pending'' \<or> t_status existing_task = ''downloading''"
  shows "snd (create_download_task env s model_id source) = s
       \<and> (\<exists>err. fst (create_download_task env s model_id source) = Inl err
                \<and> (\<forall>m. err \<noteq> ConflictError m))
       \<and> (source = ''huggingface'' \<and> hub env model_id = Hub_found \<longrightarrow>
            fst (create_download_task env s model_id source)
              = Inl (ValidationError (Text (''model '' @ model_id @
                       '' already has a pending or downloading download task''))))
       \<and> (source = ''huggingface'' \<and> hub env model_id = Hub_not_found \<longrightarrow>
            fst (create_download_task env s model_id source)
              = Inl (ModelNotFoundError (Text_model_not_exist model_id)))
       \<and> (\<forall>e. source = ''huggingface''
              \<and> (hub env model_id = Hub_http_error e \<or> hub env model_id = Hub_failure e) \<longrightarrow>
            (\<exists>m. fst (create_download_task env s model_id source)
                    = Inl (ExternalServiceError m)))
       \<and> (source = ''ollama'' \<longrightarrow>
            fst (create_download_task env s model_id source)
              = Inl (AttributeError
                       ([CHR 0x27] @ ''OllamaClient'' @ [CHR 0x27] @
                        '' object has no attribute '' @
                        [CHR 0x27] @ ''list_available_models'' @ [CHR 0x27])))
       \<and> (\<forall>task. filter (\<lambda>task. t_model_id task = model_id \<and> t_model_source task = source)
                     (tasks s) = [task] \<longrightarrow> task = existing_task)"
proof -
  have in_set: "t_status existing_task \<in> set [''pending'', ''downloading'']"
    using active by auto
  have run: "create_download_task env s model_id source
      = (case validate_model_exists env model_id source of
           Some err \<Rightarrow> (Inl err, s)
         | None \<Rightarrow> (Inl (ValidationError (Text (''model '' @ model_id @
                '' already has a pending or downloading download task''))), s))"
    using existing in_set
    by (simp add: create_download_task_def Let_def split: option.splits)
  have a: "snd (create_download_task env s model_id source) = s"
    unfolding run by (simp split: option.splits)
  have b: "\<exists>err. fst (create_download_task env s model_id source) = Inl err
                \<and> (\<forall>m. err \<noteq> ConflictError m)"
  proof (cases "validate_model_exists env model_id source")
    case None
    then show ?thesis unfolding run by simp
  next
    case (Some err)
    then have "\<forall>m. err \<noteq> ConflictError m"
      using validate_not_conflict[of env model_id source] by auto
    with Some show ?thesis unfolding run by simp
  qed
  have c: "source = ''huggingface'' \<and> hub env model_id = Hub_found \<longrightarrow>
            fst (create_download_task env s model_id source)
              = Inl (ValidationError (Text (''model '' @ model_id @
                       '' already has a pending or downloading download task'')))"
    unfolding run by (simp add: validate_model_exists_def get_model_info_def)
  have d: "source = ''huggingface'' \<and> hub env model_id = Hub_not_found \<longrightarrow>
            fst (create_download_task env s model_id source)
              = Inl (ModelNotFoundError (Text_model_not_exist model_id))"
    unfolding run by (simp add: validate_model_exists_def get_model_info_def)
  have e: "\<forall>e. source = ''huggingface''
              \<and> (hub env model_id = Hub_http_error e \<or> hub env model_id = Hub_failure e) \<longrightarrow>
            (\<exists>m. fst (create_download_task env s model_id source)
                    = Inl (ExternalServiceError m))"
    unfolding run by (auto simp add: validate_model_exists_def get_model_info_def)
  have f: "source = ''ollama'' \<longrightarrow>
            fst (create_download_task env s model_id source)
              = Inl (AttributeError
                       ([CHR 0x27] @ ''OllamaClient'' @ [CHR 0x27] @
                        '' object has no attribute '' @
                        [CHR 0x27] @ ''list_available_models'' @ [CHR 0x27]))"
    unfolding run by (simp add: validate_model_exists_def)
  have g: "\<forall>task. filter (\<lambda>task. t_model_id task = model_id \<and> t_model_source task = source)
                     (tasks s) = [task] \<longrightarrow> task = existing_task"
  proof (intro allI impI)
    fix task
    assume "filter (\<lambda>task. t_model_id task = model_id \<and> t_model_source task = source)
                     (tasks s) = [task]"
    then have "get_by_model s model_id source = Some task"
      unfolding get_by_model_def by (rule find_of_filter_single)
    with existing show "task = existing_task" by simp
  qed
  show ?thesis
    using a b c d e f g by (intro conjI) assumption+
qed

theorem create_rejects_active_task_witness:
  "get_by_model ex_download_state ''org/m'' ''huggingface'' = Some ex_task
 \<and> t_status ex_task = ''downloading''
 \<and> hub ex_create_env ''org/m'' = Hub_found
 \<and> filter (\<lambda>task. t_model_id task = ''org/m'' \<and> t_model_source task = ''huggingface'')
      (tasks ex_download_state) = [ex_task]
 \<and> create_download_task ex_create_env ex_download_state ''org/m'' ''huggingface''
      = (Inl (ValidationError
                (Text ''model org/m already has a pending or downloading download task'')),
         ex_download_state)
 \<and> create_download_task (ex_create_env\<lparr>hub := (\<lambda>model_id. Hub_not_found)\<rparr>) ex_download_state
      ''org/m'' ''huggingface''
      = (Inl (ModelNotFoundError (Text_model_not_exist ''org/m'')), ex_download_state)
 \<and> get_by_model ex_ollama_state ''llama3'' ''ollama'' = Some ex_ollama_task
 \<and> t_status ex_ollama_task = ''downloading''
 \<and> create_download_task ex_create_env ex_ollama_state ''llama3'' ''ollama''
      = (Inl (AttributeError
                ([CHR 0x27] @ ''OllamaClient'' @ [CHR 0x27] @ '' object has no attribute '' @
                 [CHR 0x27] @ ''list_available_models'' @ [CHR 0x27])),
         ex_ollama_state)"
proof -
  have a: "t_status ex_task = ''pending'' \<or> t_status ex_task = ''downloading''"
    by (simp add: ex_task_status)
  have h: "hub ex_create_env ''org/m'' = Hub_found" by (simp add: ex_create_env_def)
  have h': "hub (ex_create_env\<lparr>hub := (\<lambda>model_id. Hub_not_found)\<rparr>) ''org/m'' = Hub_not_found"
    by simp
  have f: "filter (\<lambda>task. t_model_id task = ''org/m'' \<and> t_model_source task = ''huggingface'')
      (tasks ex_download_state) = [ex_task]"
    by (simp add: ex_download_state_def ex_task_def)
  have o: "get_by_model ex_ollama_state ''llama3'' ''ollama'' = Some ex_ollama_task"
    by (simp add: get_by_model_def ex_ollama_state_def ex_ollama_task_def ex_task_def)
  have os: "t_status ex_ollama_task = ''downloading''"
    by (simp add: ex_ollama_task_def ex_task_def)
  have oa: "t_status ex_ollama_task = ''pending'' \<or> t_status ex_ollama_task = ''downloading''"
    by (simp add: os)
  note th = create_rejects_active_task[OF ex_task_by_model a, where env = ex_create_env]
  note th' = create_rejects_active_task[OF ex_task_by_model a,
      where env = "ex_create_env\<lparr>hub := (\<lambda>model_id. Hub_not_found)\<rparr>"]
  note tho = create_rejects_active_task[OF o oa, where env = ex_create_env]
  have r1: "snd (create_download_task ex_create_env ex_download_state ''org/m'' ''huggingface'')
      = ex_download_state"
    using th by (rule conjunct1)
  have r2: "fst (create_download_task ex_create_env ex_download_state ''org/m'' ''huggingface'')
      = Inl (ValidationError (Text (''model '' @ ''org/m'' @
                       '' already has a pending or downloading download task'')))"
    using th[THEN conjunct2, THEN conjunct2, THEN conjunct1] h by simp
  have r3: "snd (create_download_task (ex_create_env\<lparr>hub := (\<lambda>model_id. Hub_not_found)\<rparr>)
                   ex_download_state ''org/m'' ''huggingface'') = ex_download_state"
    using th' by (rule conjunct1)
  have r4: "fst (create_download_task (ex_create_env\<lparr>hub := (\<lambda>model_id. Hub_not_found)\<rparr>)
                   ex_download_state ''org/m'' ''huggingface'')
      = Inl (ModelNotFoundError (Text_model_not_exist ''org/m''))"
    using th'[THEN conjunct2, THEN conjunct2, THEN conjunct2, THEN conjunct1] h' by simp
  have r5: "snd (create_download_task ex_create_env ex_ollama_state ''llama3'' ''ollama'')
      = ex_ollama_state"
    using tho by (rule conjunct1)
  have r6: "fst (create_download_task ex_create_env ex_ollama_state ''llama3'' ''ollama'')
      = Inl (AttributeError
                ([CHR 0x27] @ ''OllamaClient'' @ [CHR 0x27] @ '' object has no attribute '' @
                 [CHR 0x27] @ ''list_available_models'' @ [CHR 0x27]))"
    using tho[THEN conjunct2, THEN conjunct2, THEN conjunct2, THEN conjunct2, THEN conjunct2,
        THEN conjunct1] by simp
  show ?thesis
    using ex_task_by_model ex_task_status h f r1 r2 r3 r4 o os r5 r6
    by (simp add: prod_eq_iff)
qed

text \<open>
  C6 as stated fails: the error for a model whose task is downloading is a
  \<open>ValidationError\<close>, not a \<open>ConflictError\<close>.
\<close>

theorem create_conflict_counterexample:
  "get_by_model ex_download_state ''org/m'' ''huggingface'' = Some ex_task
 \<and> t_status ex_task = ''downloading''
 \<and> fst (create_download_task ex_create_env ex_download_state ''org/m'' ''huggingface'')
      = Inl (ValidationError
               (Text ''model org/m already has a pending or downloading download task''))
 \<and> \<not> (\<exists>m. fst (create_download_task ex_create_env ex_download_state ''org/m'' ''huggingface'')
             = Inl (ConflictError m))"
  by (simp add: create_download_task_def validate_model_exists_def get_model_info_def
      get_by_model_def ex_download_state_def ex_task_def ex_create_env_def Let_def)

section \<open>Allocating a port\<close>

lemma scan_connections_iff: "scan_connections connections port \<longleftrightarrow> \<not> listening connections port"
  by (induction connections) (auto simp add: listening_def)

lemma check_port_iff:
  "check_port_availability (Some connections) port \<longleftrightarrow> \<not> listening connections port"
  by (simp add: check_port_availability_def scan_connections_iff)

lemma find_port_Some:
  "find_available_port net a b = Some p \<longleftrightarrow>
     a \<le> p \<and> p \<le> b \<and> check_port_availability net p
     \<and> (\<forall>q. a \<le> q \<and> q < p \<longrightarrow> \<not> check_port_availability net q)"
proof (induction net a b rule: find_available_port.induct)
  case (1 net a b)
  show ?case
  proof (cases "a > b")
    case True
    then show ?thesis by (simp add: find_available_port.simps[of net a b])
  next
    case False
    show ?thesis
    proof (cases "check_port_availability net a")
      case True
      have fa: "find_available_port net a b = Some a"
        using False True by (simp add: find_available_port.simps[of net a b])
      have eqv: "(a \<le> p \<and> p \<le> b \<and> check_port_availability net p
          \<and> (\<forall>q. a \<le> q \<and> q < p \<longrightarrow> \<not> check_port_availability net q)) \<longleftrightarrow> p = a"
      proof
        assume l: "a \<le> p \<and> p \<le> b \<and> check_port_availability net p
          \<and> (\<forall>q. a \<le> q \<and> q < p \<longrightarrow> \<not> check_port_availability net q)"
        show "p = a"
        proof (rule ccontr)
          assume "p \<noteq> a"
          then have "a \<le> a \<and> a < p" using l by simp
          then have "\<not> check_port_availability net a" using l by blast
          then show False using True by simp
        qed
      next
        assume "p = a"
        then show "a \<le> p \<and> p \<le> b \<and> check_port_availability net p
          \<and> (\<forall>q. a \<le> q \<and> q < p \<longrightarrow> \<not> check_port_availability net q)"
          using False True by auto
      qed
      show ?thesis unfolding fa eqv by auto
    next
      case nav: False
      have step: "find_available_port net a b = find_available_port net (a + 1) b"
        using False nav by (simp add: find_available_port.simps[of net a b])
      have ih: "find_available_port net (a + 1) b = Some p \<longleftrightarrow>
          a + 1 \<le> p \<and> p \<le> b \<and> check_port_availability net p
          \<and> (\<forall>q. a + 1 \<le> q \<and> q < p \<longrightarrow> \<not> check_port_availability net q)"
        using "1.IH"[OF False nav] .
      have "(a + 1 \<le> p \<and> p \<le> b \<and> check_port_availability net p
          \<and> (\<forall>q. a + 1 \<le> q \<and> q < p \<longrightarrow> \<not> check_port_availability net q))
        \<longleftrightarrow> (a \<le> p \<and> p \<le> b \<and> check_port_availability net p
          \<and> (\<forall>q. a \<le> q \<and> q < p \<longrightarrow> \<not> check_port_availability net q))"
      proof
        assume l: "a + 1 \<le> p \<and> p \<le> b \<and> check_port_availability net p
          \<and> (\<forall>q. a + 1 \<le> q \<and> q < p \<longrightarrow> \<not> check_port_availability net q)"
        have "\<forall>q. a \<le> q \<and> q < p \<longrightarrow> \<not> check_port_availability net q"
        proof (intro allI impI)
          fix q assume q: "a \<le> q \<and> q < p"
          show "\<not> check_port_availability net q"
          proof (cases "q = a")
            case True then show ?thesis using nav by simp
          next
            case False
            then have "a + 1 \<le> q" using q by simp
            then show ?thesis using l q by blast
          qed
        qed
        with l show "a \<le> p \<and> p \<le> b \<and> check_port_availability net p
          \<and> (\<forall>q. a \<le> q \<and> q < p \<longrightarrow> \<not> check_port_availability net q)" by simp
      next
        assume r: "a \<le> p \<and> p \<le> b \<and> check_port_availability net p
          \<and> (\<forall>q. a \<le> q \<and> q < p \<longrightarrow> \<not> check_port_availability net q)"
        then have "p \<noteq> a" using nav by auto
        then have "a + 1 \<le> p" using r by simp
        moreover have "\<forall>q. a + 1 \<le> q \<and> q < p \<longrightarrow> \<not> check_port_availability net q"
          using r by simp
        ultimately show "a + 1 \<le> p \<and> p \<le> b \<and> check_port_availability net p
          \<and> (\<forall>q. a + 1 \<le> q \<and> q < p \<longrightarrow> \<not> check_port_availability net q)"
          using r by simp
      qed
      with step ih show ?thesis by simp
    qed
  qed
qed

lemma find_port_None:
  "find_available_port net a b = None \<longleftrightarrow>
     (\<forall>q. a \<le> q \<and> q \<le> b \<longrightarrow> \<not> check_port_availability net q)"
proof
  assume n: "find_available_port net a b = None"
  show "\<forall>q. a \<le> q \<and> q \<le> b \<longrightarrow> \<not> check_port_availability net q"
  proof (intro allI impI notI)
    fix q assume q: "a \<le> q \<and> q \<le> b" and av: "check_port_availability net q"
    define P where "P = (\<lambda>k. check_port_availability net (a + int k))"
    have "P (nat (q - a))" using q av by (simp add: P_def)
    then have ex: "\<exists>k. P k" by blast
    define k where "k = (LEAST k. P k)"
    have pk: "P k" unfolding k_def using ex by (metis LeastI)
    have least: "\<And>j. j < k \<Longrightarrow> \<not> P j" unfolding k_def by (rule not_less_Least)
    have kle: "k \<le> nat (q - a)" unfolding k_def using \<open>P (nat (q - a))\<close> by (rule Least_le)
    let ?p = "a + int k"
    have "int k \<le> q - a" using kle q by linarith
    then have "?p \<le> b" using q by linarith
    then have "a \<le> ?p \<and> ?p \<le> b \<and> check_port_availability net ?p"
      using pk by (simp add: P_def)
    moreover have "\<forall>r. a \<le> r \<and> r < ?p \<longrightarrow> \<not> check_port_availability net r"
    proof (intro allI impI)
      fix r assume r: "a \<le> r \<and> r < ?p"
      then have "nat (r - a) < k" by linarith
      then have "\<not> P (nat (r - a))" by (rule least)
      moreover have "a + int (nat (r - a)) = r" using r by simp
      ultimately show "\<not> check_port_availability net r" by (simp add: P_def)
    qed
    ultimately have "find_available_port net a b = Some ?p" by (simp add: find_port_Some)
    with n show False by simp
  qed
next
  assume a: "\<forall>q. a \<le> q \<and> q \<le> b \<longrightarrow> \<not> check_port_availability net q"
  show "find_available_port net a b = None"
  proof (cases "find_available_port net a b")
    case None then show ?thesis .
  next
    case (Some p)
    then have "a \<le> p \<and> p \<le> b \<and> check_port_availability net p" by (simp add: find_port_Some)
    with a show ?thesis by blast
  qed
qed

lemma allocate_port_nonzero: "allocate_port net preferred_port = Inr (Some p) \<Longrightarrow> p \<noteq> 0"
proof -
  assume al: "allocate_port net preferred_port = Inr (Some p)"
  show "p \<noteq> 0"
  proof (cases "\<exists>q. preferred_port = Some q \<and> q \<noteq> 0")
    case True
    then obtain q where q: "preferred_port = Some q" "q \<noteq> 0" by blast
    then show ?thesis using al by (simp add: allocate_port_def split: if_splits)
  next
    case False
    then have "allocate_port net preferred_port = Inr (find_available_port net 8000 9000)"
      by (cases preferred_port) (simp_all add: allocate_port_def)
    with al have "find_available_port net 8000 9000 = Some p" by simp
    then have "8000 \<le> p" using find_port_Some[of net 8000 9000 p] by simp
    then show ?thesis by simp
  qed
qed

text \<open>
  C9: with the listing of connections at hand, a preferred port (a port that is not
  zero; \<^verbatim>\<open>if preferred_port:\<close> takes zero for no port) is returned when no listening
  socket is bound to it, and otherwise the allocation raises a \<open>ValidationError\<close>;
  without a preferred port the result is the least port from 8000 to 9000 that no
  listening socket is bound to, or \<open>None\<close> when every port of the range is bound.
  \<open>create_deployment\<close>, for a known model and an unused name, fails with the allocator's
  error or "no port" in the failing cases and stores a pending deployment with the
  allocated port otherwise.
\<close>

theorem port_allocation:
  assumes net: "net = Some connections"
  shows "(\<forall>p. preferred_port = Some p \<and> p \<noteq> 0 \<longrightarrow>
            (\<not> listening connections p \<longrightarrow> allocate_port net preferred_port = Inr (Some p))
          \<and> (listening connections p \<longrightarrow>
               allocate_port net preferred_port = Inl (ValidationError (Text_port_in_use p))))
       \<and> (preferred_port = None \<or> preferred_port = Some 0 \<longrightarrow>
            (\<exists>r. allocate_port net preferred_port = Inr r
                \<and> (\<forall>p. r = Some p \<longleftrightarrow>
                       8000 \<le> p \<and> p \<le> 9000 \<and> \<not> listening connections p
                       \<and> (\<forall>q. 8000 \<le> q \<and> q < p \<longrightarrow> listening connections q))
                \<and> (r = None \<longleftrightarrow> (\<forall>q. 8000 \<le> q \<and> q \<le> 9000 \<longrightarrow> listening connections q))))
       \<and> (\<forall>model. Model_query s model_id source = Some model
              \<and> find (\<lambda>d. d_name d = name) (deployments s) = None
              \<and> net_connections env = net
              \<and> (case config of Some c \<Rightarrow> cfg_port c | None \<Rightarrow> None) = preferred_port \<longrightarrow>
            (\<forall>e. allocate_port net preferred_port = Inl e \<longrightarrow>
                  create_deployment env s model_id source name config = (Inl e, s))
          \<and> (allocate_port net preferred_port = Inr None \<longrightarrow>
                  create_deployment env s model_id source name config
                    = (Inl (ValidationError Text_no_port), s))
          \<and> (\<forall>p. allocate_port net preferred_port = Inr (Some p) \<longrightarrow>
                  (\<exists>d. create_deployment env s model_id source name config
                          = (Inr d, s\<lparr>deployments := deployments s @ [d]\<rparr>)
                      \<and> d_port d = Some p \<and> d_status d = ''pending'' \<and> d_name d = name)))"
proof (intro conjI allI impI)
  fix p
  assume a: "preferred_port = Some p \<and> p \<noteq> 0"
  { assume "\<not> listening connections p"
    then show "allocate_port net preferred_port = Inr (Some p)"
      using a net by (simp add: allocate_port_def check_port_iff) }
  { assume "listening connections p"
    then show "allocate_port net preferred_port = Inl (ValidationError (Text_port_in_use p))"
      using a net by (simp add: allocate_port_def check_port_iff) }
next
  assume a: "preferred_port = None \<or> preferred_port = Some 0"
  then have al: "allocate_port net preferred_port = Inr (find_available_port net 8000 9000)"
    by (auto simp add: allocate_port_def)
  have s: "\<forall>p. find_available_port net 8000 9000 = Some p \<longleftrightarrow>
                       8000 \<le> p \<and> p \<le> 9000 \<and> \<not> listening connections p
                       \<and> (\<forall>q. 8000 \<le> q \<and> q < p \<longrightarrow> listening connections q)"
    by (simp add: find_port_Some net check_port_iff)
  have n: "find_available_port net 8000 9000 = None \<longleftrightarrow>
             (\<forall>q. 8000 \<le> q \<and> q \<le> 9000 \<longrightarrow> listening connections q)"
    by (simp add: find_port_None net check_port_iff)
  show "\<exists>r. allocate_port net preferred_port = Inr r
                \<and> (\<forall>p. r = Some p \<longleftrightarrow>
                       8000 \<le> p \<and> p \<le> 9000 \<and> \<not> listening connections p
                       \<and> (\<forall>q. 8000 \<le> q \<and> q < p \<longrightarrow> listening connections q))
                \<and> (r = None \<longleftrightarrow> (\<forall>q. 8000 \<le> q \<and> q \<le> 9000 \<longrightarrow> listening connections q))"
    unfolding al using s n by (intro exI[of _ "find_available_port net 8000 9000"] conjI refl)
next
  fix model
  assume a: "Model_query s model_id source = Some model
              \<and> find (\<lambda>d. d_name d = name) (deployments s) = None
              \<and> net_connections env = net
              \<and> (case config of Some c \<Rightarrow> cfg_port c | None \<Rightarrow> None) = preferred_port"
  { fix e assume "allocate_port net preferred_port = Inl e"
    then show "create_deployment env s model_id source name config = (Inl e, s)"
      using a by (simp add: create_deployment_def) }
  { assume "allocate_port net preferred_port = Inr None"
    then show "create_deployment env s model_id source name config
                    = (Inl (ValidationError Text_no_port), s)"
      using a by (simp add: create_deployment_def) }
  { fix p assume al: "allocate_port net preferred_port = Inr (Some p)"
    then have "p \<noteq> 0" by (rule allocate_port_nonzero)
    then show "\<exists>d. create_deployment env s model_id source name config
                          = (Inr d, s\<lparr>deployments := deployments s @ [d]\<rparr>)
                      \<and> d_port d = Some p \<and> d_status d = ''pending'' \<and> d_name d = name"
      using a al by (simp add: create_deployment_def Let_def) }
qed

theorem port_allocation_witness:
  "listening ex_connections 8000 \<and> \<not> listening ex_connections 8080
 \<and> \<not> listening ex_connections 8001
 \<and> allocate_port (Some ex_connections) (Some 8080) = Inr (Some 8080)
 \<and> allocate_port (Some ex_connections) (Some 8000) = Inl (ValidationError (Text_port_in_use 8000))
 \<and> allocate_port (Some ex_connections) None = Inr (Some 8001)
 \<and> allocate_port (Some ex_all_bound) None = Inr None
 \<and> Model_query ex_state ''org/m'' ''huggingface'' = Some ex_model
 \<and> find (\<lambda>d. d_name d = ''dep1'') (deployments ex_state) = None
 \<and> net_connections ex_deploy_env = Some ex_connections
 \<and> (\<exists>d. create_deployment ex_deploy_env ex_state ''org/m'' ''huggingface'' ''dep1'' None
            = (Inr d, ex_state\<lparr>deployments := deployments ex_state @ [d]\<rparr>)
        \<and> d_port d = Some 8001 \<and> d_status d = ''pending'' \<and> d_name d = ''dep1'')
 \<and> create_deployment ex_deploy_env ex_state ''org/m'' ''huggingface'' ''dep1''
      (Some \<lparr>cfg_port = Some 8000, cfg_host = None\<rparr>)
      = (Inl (ValidationError (Text_port_in_use 8000)), ex_state)"
proof -
  have a8080: "allocate_port (Some ex_connections) (Some 8080) = Inr (Some 8080)"
    using port_allocation[OF refl, of "Some 8080" ex_connections, THEN conjunct1, rule_format,
        of 8080] ex_listening by simp
  have a8000: "allocate_port (Some ex_connections) (Some 8000)
      = Inl (ValidationError (Text_port_in_use 8000))"
    using port_allocation[OF refl, of "Some 8000" ex_connections, THEN conjunct1, rule_format,
        of 8000] ex_listening by simp
  obtain r where r: "allocate_port (Some ex_connections) None = Inr r"
    and rs: "\<forall>p. r = Some p \<longleftrightarrow>
                       8000 \<le> p \<and> p \<le> 9000 \<and> \<not> listening ex_connections p
                       \<and> (\<forall>q. 8000 \<le> q \<and> q < p \<longrightarrow> listening ex_connections q)"
    using port_allocation[OF refl, of None ex_connections, THEN conjunct2, THEN conjunct1]
    by blast
  have "\<forall>q::int. 8000 \<le> q \<and> q < 8001 \<longrightarrow> listening ex_connections q"
  proof (intro allI impI)
    fix q :: int assume "8000 \<le> q \<and> q < 8001"
    then have "q = 8000" by simp
    then show "listening ex_connections q" using ex_listening by simp
  qed
  then have "r = Some 8001" using rs[rule_format, of 8001] ex_listening by simp
  then have anone: "allocate_port (Some ex_connections) None = Inr (Some 8001)" using r by simp
  obtain r' where r': "allocate_port (Some ex_all_bound) None = Inr r'"
    and rn: "r' = None \<longleftrightarrow> (\<forall>q. 8000 \<le> q \<and> q \<le> 9000 \<longrightarrow> listening ex_all_bound q)"
    using port_allocation[OF refl, of None ex_all_bound, THEN conjunct2, THEN conjunct1]
    by blast
  have "r' = None" using rn by (simp add: ex_all_bound_listening)
  then have aall: "allocate_port (Some ex_all_bound) None = Inr None" using r' by simp
  have nm: "find (\<lambda>d. d_name d = ''dep1'') (deployments ex_state) = None"
    by (simp add: ex_state_def)
  have net: "net_connections ex_deploy_env = Some ex_connections"
    by (simp add: ex_deploy_env_def)
  have c1: "\<exists>d. create_deployment ex_deploy_env ex_state ''org/m'' ''huggingface'' ''dep1'' None
            = (Inr d, ex_state\<lparr>deployments := deployments ex_state @ [d]\<rparr>)
        \<and> d_port d = Some 8001 \<and> d_status d = ''pending'' \<and> d_name d = ''dep1''"
    using port_allocation[OF refl, of None ex_connections ex_state "''org/m''" "''huggingface''"
        "''dep1''" ex_deploy_env None, THEN conjunct2, THEN conjunct2, rule_format, of ex_model,
        THEN conjunct2, THEN conjunct2, rule_format, of 8001]
      ex_row nm net anone by simp
  have c2: "create_deployment ex_deploy_env ex_state ''org/m'' ''huggingface'' ''dep1''
      (Some \<lparr>cfg_port = Some 8000, cfg_host = None\<rparr>)
      = (Inl (ValidationError (Text_port_in_use 8000)), ex_state)"
    using port_allocation[OF refl, of "Some 8000" ex_connections ex_state "''org/m''"
        "''huggingface''" "''dep1''" ex_deploy_env "Some \<lparr>cfg_port = Some 8000, cfg_host = None\<rparr>",
        THEN conjunct2, THEN conjunct2, rule_format, of ex_model,
        THEN conjunct1, rule_format, of "ValidationError (Text_port_in_use 8000)"]
      ex_row nm net a8000 by simp
  show ?thesis
    using ex_listening a8080 a8000 anone aall ex_row nm net c1 c2 by simp
qed

section \<open>Health checks\<close>

lemma deployment_get_id: "deployment_get s deployment_id = Some d \<Longrightarrow> d_id d = deployment_id"
  unfolding deployment_get_def by (drule find_Some_holds) simp

lemma deployment_get_put_same:
  "deployment_get s deployment_id = Some d \<Longrightarrow> d_id d' = deployment_id \<Longrightarrow>
   deployment_get (deployment_put s d') deployment_id = Some d'"
  unfolding deployment_get_def deployment_put_def
  using find_replace_same[of d_id deployment_id "deployments s" d d'] by simp

lemma deployment_get_cong: "deployments s' = deployments s \<Longrightarrow> deployment_get s' = deployment_get s"
  by (simp add: deployment_get_def fun_eq_iff)

lemma deployment_put_raised: "raised (deployment_put s d) = raised s"
  by (simp add: deployment_put_def)

lemma deployment_trigger_frame:
  "deployments (deployment_trigger_state_event t push s d event_name data) = deployments s"
  "raised (deployment_trigger_state_event t push s d event_name data)
     = raised s @ [(d_model_id d, d_model_source d, event_name)]"
  unfolding deployment_trigger_state_event_def using trigger_frame by blast+

lemma update_health_status_effect:
  "fst (update_health_status t push s d status)
     = d\<lparr>d_health_status := Some status, d_last_health_check := Some t, d_updated_at := Some t\<rparr>"
  "deployments (snd (update_health_status t push s d status)) = deployments s"
  "raised (snd (update_health_status t push s d status))
     = raised s @ (if status = ''unhealthy'' \<and> d_health_status d \<noteq> Some ''unhealthy''
                   then [(d_model_id d, d_model_source d, ''health_check_failed'')] else [])"
  by (simp_all add: update_health_status_def Let_def deployment_trigger_frame)

lemma health_check_shape:
  assumes "deployment_get s deployment_id = Some d"
  shows "\<exists>status stopped.
           status \<in> {''healthy'', ''unhealthy'', ''error''}
         \<and> snd (check_deployment_health env s deployment_id)
             = deployment_put (snd (update_health_status (he_now env) (he_push_exc env) s d status))
                 (if stopped
                  then (fst (update_health_status (he_now env) (he_push_exc env) s d status))
                         \<lparr>d_status := ''stopped''\<rparr>
                  else fst (update_health_status (he_now env) (he_push_exc env) s d status))"
proof -
  let ?u = "\<lambda>status. update_health_status (he_now env) (he_push_exc env) s d status"
  let ?P = "\<lambda>status stopped. status \<in> {''healthy'', ''unhealthy'', ''error''}
         \<and> snd (check_deployment_health env s deployment_id)
             = deployment_put (snd (?u status))
                 (if stopped then (fst (?u status))\<lparr>d_status := ''stopped''\<rparr> else fst (?u status))"
  show ?thesis
  proof (cases "d_status d \<noteq> ''running''")
    case True
    then have "?P ''unhealthy'' False"
      using assms by (simp add: check_deployment_health_def split_beta)
    then show ?thesis by blast
  next
    case running: False
    show ?thesis
    proof (cases "case d_container_id d of Some c \<Rightarrow> c \<noteq> [] \<and> \<not> container_running env
                   | None \<Rightarrow> False")
      case True
      then have "?P ''unhealthy'' True"
        using assms running by (simp add: check_deployment_health_def split_beta)
      then show ?thesis by blast
    next
      case alive: False
      show ?thesis
      proof (cases "probe_service env d")
        case (Inl e)
        then have "?P ''error'' False"
          using assms running alive by (simp add: check_deployment_health_def split_beta)
        then show ?thesis by blast
      next
        case (Inr healthy)
        show ?thesis
        proof (cases healthy)
          case True
          then have "?P ''healthy'' False"
            using assms running alive Inr by (simp add: check_deployment_health_def split_beta)
          then show ?thesis by blast
        next
          case False
          then have "?P ''unhealthy'' False"
            using assms running alive Inr by (simp add: check_deployment_health_def split_beta)
          then show ?thesis by blast
        qed
      qed
    qed
  qed
qed

lemma health_check_step:
  assumes g: "deployment_get s deployment_id = Some d"
  shows "\<exists>d'. deployment_get (snd (check_deployment_health env s deployment_id)) deployment_id
                 = Some d'
            \<and> d_health_status d' \<in> {Some ''healthy'', Some ''unhealthy'', Some ''error''}
            \<and> d_last_health_check d' = Some (he_now env)
            \<and> d_model_id d' = d_model_id d \<and> d_model_source d' = d_model_source d
            \<and> raised (snd (check_deployment_health env s deployment_id))
                = raised s @
                  (if d_health_status d' = Some ''unhealthy''
                      \<and> d_health_status d \<noteq> Some ''unhealthy''
                   then [(d_model_id d, d_model_source d, ''health_check_failed'')] else [])"
proof -
  obtain status stopped where st: "status \<in> {''healthy'', ''unhealthy'', ''error''}"
    and run: "snd (check_deployment_health env s deployment_id)
             = deployment_put (snd (update_health_status (he_now env) (he_push_exc env) s d status))
                 (if stopped
                  then (fst (update_health_status (he_now env) (he_push_exc env) s d status))
                         \<lparr>d_status := ''stopped''\<rparr>
                  else fst (update_health_status (he_now env) (he_push_exc env) s d status))"
    using health_check_shape[OF g] by blast
  define s1 where "s1 = snd (update_health_status (he_now env) (he_push_exc env) s d status)"
  define d1 where "d1 = d\<lparr>d_health_status := Some status,
                           d_last_health_check := Some (he_now env),
                           d_updated_at := Some (he_now env)\<rparr>"
  define d' where "d' = (if stopped then d1\<lparr>d_status := ''stopped''\<rparr> else d1)"
  have run': "snd (check_deployment_health env s deployment_id) = deployment_put s1 d'"
    by (simp add: run s1_def d'_def d1_def update_health_status_effect)
  have idd: "d_id d = deployment_id" using g by (rule deployment_get_id)
  have g1: "deployment_get s1 deployment_id = Some d"
    using g deployment_get_cong[of s1 s] by (simp add: s1_def update_health_status_effect)
  have id': "d_id d' = deployment_id" by (simp add: d'_def d1_def idd)
  have got: "deployment_get (deployment_put s1 d') deployment_id = Some d'"
    using deployment_get_put_same[OF g1 id'] .
  have hs: "d_health_status d' = Some status" by (simp add: d'_def d1_def)
  have r: "raised (deployment_put s1 d')
      = raised s @ (if status = ''unhealthy'' \<and> d_health_status d \<noteq> Some ''unhealthy''
                   then [(d_model_id d, d_model_source d, ''health_check_failed'')] else [])"
    by (simp add: deployment_put_raised s1_def update_health_status_effect)
  have "deployment_get (snd (check_deployment_health env s deployment_id)) deployment_id = Some d'"
    using got by (simp add: run')
  moreover have "d_health_status d' \<in> {Some ''healthy'', Some ''unhealthy'', Some ''error''}"
    using st hs by auto
  moreover have "d_last_health_check d' = Some (he_now env)" by (simp add: d'_def d1_def)
  moreover have "d_model_id d' = d_model_id d \<and> d_model_source d' = d_model_source d"
    by (simp add: d'_def d1_def)
  moreover have "raised (snd (check_deployment_health env s deployment_id))
                = raised s @
                  (if d_health_status d' = Some ''unhealthy''
                      \<and> d_health_status d \<noteq> Some ''unhealthy''
                   then [(d_model_id d, d_model_source d, ''health_check_failed'')] else [])"
    using r by (simp add: run' hs)
  ultimately show ?thesis by blast
qed

lemma health_checks_edges:
  "deployment_get s deployment_id = Some d \<Longrightarrow> i < length envs \<Longrightarrow>
   \<exists>before after.
      deployment_get ((s # health_checks s deployment_id envs) ! i) deployment_id = Some before
    \<and> deployment_get (health_checks s deployment_id envs ! i) deployment_id = Some after
    \<and> d_health_status after \<in> {Some ''healthy'', Some ''unhealthy'', Some ''error''}
    \<and> d_last_health_check after = Some (he_now (envs ! i))
    \<and> raised (health_checks s deployment_id envs ! i)
        = raised ((s # health_checks s deployment_id envs) ! i) @
          (if d_health_status after = Some ''unhealthy''
              \<and> d_health_status before \<noteq> Some ''unhealthy''
           then [(d_model_id d, d_model_source d, ''health_check_failed'')] else [])"
proof (induction envs arbitrary: s d i)
  case Nil
  then show ?case by simp
next
  case (Cons env envs)
  let ?s' = "snd (check_deployment_health env s deployment_id)"
  have unfold: "health_checks s deployment_id (env # envs) = ?s' # health_checks ?s' deployment_id envs"
    by (simp add: Let_def)
  from health_check_step[OF Cons.prems(1), of env]
  obtain d' where g': "deployment_get ?s' deployment_id = Some d'"
    and hs: "d_health_status d' \<in> {Some ''healthy'', Some ''unhealthy'', Some ''error''}"
    and lc: "d_last_health_check d' = Some (he_now env)"
    and ids: "d_model_id d' = d_model_id d \<and> d_model_source d' = d_model_source d"
    and r: "raised ?s' = raised s @
                  (if d_health_status d' = Some ''unhealthy''
                      \<and> d_health_status d \<noteq> Some ''unhealthy''
                   then [(d_model_id d, d_model_source d, ''health_check_failed'')] else [])"
    by blast
  show ?case
  proof (cases i)
    case 0
    show ?thesis
      unfolding unfold 0 using Cons.prems(1) g' hs lc r
      by (intro exI[of _ d] exI[of _ d']) simp
  next
    case (Suc j)
    then have j: "j < length envs" using Cons.prems(2) by simp
    from Cons.IH[OF g' j]
    obtain before after where
      "deployment_get ((?s' # health_checks ?s' deployment_id envs) ! j) deployment_id = Some before
    \<and> deployment_get (health_checks ?s' deployment_id envs ! j) deployment_id = Some after
    \<and> d_health_status after \<in> {Some ''healthy'', Some ''unhealthy'', Some ''error''}
    \<and> d_last_health_check after = Some (he_now (envs ! j))
    \<and> raised (health_checks ?s' deployment_id envs ! j)
        = raised ((?s' # health_checks ?s' deployment_id envs) ! j) @
          (if d_health_status after = Some ''unhealthy''
              \<and> d_health_status before \<noteq> Some ''unhealthy''
           then [(d_model_id d', d_model_source d', ''health_check_failed'')] else [])"
      by blast
    then show ?thesis
      unfolding unfold Suc using ids
      by (intro exI[of _ before] exI[of _ after]) simp
  qed
qed

lemma health_check_report:
  assumes "deployment_get s deployment_id = Some d"
  shows "\<exists>report after.
           fst (check_deployment_health env s deployment_id) = Inr report
         \<and> deployment_get (snd (check_deployment_health env s deployment_id)) deployment_id
             = Some after
         \<and> (hr_healthy report \<longleftrightarrow> d_health_status after = Some ''healthy'')
         \<and> hr_last_check report = Some (he_now env)"
proof -
  have idd: "d_id d = deployment_id" using assms by (rule deployment_get_id)
  have put: "\<And>(st::state) (d'::Deployment). deployments st = deployments s \<Longrightarrow> d_id d' = deployment_id \<Longrightarrow>
      deployment_get (deployment_put st d') deployment_id = Some d'"
  proof -
    fix st :: state and d' :: Deployment assume a: "deployments st = deployments s" "d_id d' = deployment_id"
    have "deployment_get st deployment_id = Some d"
      using assms deployment_get_cong[OF a(1)] by simp
    then show "deployment_get (deployment_put st d') deployment_id = Some d'"
      using a(2) by (rule deployment_get_put_same)
  qed
  show ?thesis
  proof (cases "d_status d \<noteq> ''running''")
    case True
    then show ?thesis
      using assms idd
      by (simp add: check_deployment_health_def split_beta update_health_status_effect put)
  next
    case running: False
    show ?thesis
    proof (cases "case d_container_id d of Some c \<Rightarrow> c \<noteq> [] \<and> \<not> container_running env
                   | None \<Rightarrow> False")
      case True
      then show ?thesis
        using assms idd running
        by (simp add: check_deployment_health_def split_beta update_health_status_effect put)
    next
      case alive: False
      show ?thesis
      proof (cases "probe_service env d")
        case (Inl e)
        then show ?thesis
          using assms idd running alive
          by (simp add: check_deployment_health_def split_beta update_health_status_effect put)
      next
        case (Inr healthy)
        then show ?thesis
          using assms idd running alive
          by (simp add: check_deployment_health_def split_beta update_health_status_effect put)
      qed
    qed
  qed
qed

text \<open>
  C4: for a stored deployment and every sequence of health checks, each call records a
  health status and the time of the check, and raises \<^verbatim>\<open>health_check_failed\<close> for the
  deployment's model exactly when the status it records is \<^verbatim>\<open>unhealthy\<close> and the
  status recorded before the call was not; so of two calls in a row that both record
  \<^verbatim>\<open>unhealthy\<close> the second raises nothing. The report of a call says healthy exactly
  when the recorded status is \<^verbatim>\<open>healthy\<close>.
\<close>

theorem health_check_failed_is_edge_triggered:
  assumes found: "deployment_get s deployment_id = Some d"
  shows "(\<forall>i < length envs.
          \<exists>before after.
             deployment_get ((s # health_checks s deployment_id envs) ! i) deployment_id
               = Some before
           \<and> deployment_get (health_checks s deployment_id envs ! i) deployment_id = Some after
           \<and> d_health_status after \<in> {Some ''healthy'', Some ''unhealthy'', Some ''error''}
           \<and> d_last_health_check after = Some (he_now (envs ! i))
           \<and> raised (health_checks s deployment_id envs ! i)
               = raised ((s # health_checks s deployment_id envs) ! i) @
                 (if d_health_status after = Some ''unhealthy''
                     \<and> d_health_status before \<noteq> Some ''unhealthy''
                  then [(d_model_id d, d_model_source d, ''health_check_failed'')] else []))
       \<and> (\<forall>i first second.
             Suc i < length envs
           \<and> deployment_get (health_checks s deployment_id envs ! i) deployment_id = Some first
           \<and> d_health_status first = Some ''unhealthy''
           \<and> deployment_get (health_checks s deployment_id envs ! Suc i) deployment_id
               = Some second
           \<and> d_health_status second = Some ''unhealthy'' \<longrightarrow>
             raised (health_checks s deployment_id envs ! Suc i)
               = raised (health_checks s deployment_id envs ! i))
       \<and> (\<forall>env. \<exists>report after.
             fst (check_deployment_health env s deployment_id) = Inr report
           \<and> deployment_get (snd (check_deployment_health env s deployment_id)) deployment_id
               = Some after
           \<and> (hr_healthy report \<longleftrightarrow> d_health_status after = Some ''healthy'')
           \<and> hr_last_check report = Some (he_now env))"
proof (intro conjI allI impI)
  fix i assume "i < length envs"
  then show "\<exists>before after.
             deployment_get ((s # health_checks s deployment_id envs) ! i) deployment_id
               = Some before
           \<and> deployment_get (health_checks s deployment_id envs ! i) deployment_id = Some after
           \<and> d_health_status after \<in> {Some ''healthy'', Some ''unhealthy'', Some ''error''}
           \<and> d_last_health_check after = Some (he_now (envs ! i))
           \<and> raised (health_checks s deployment_id envs ! i)
               = raised ((s # health_checks s deployment_id envs) ! i) @
                 (if d_health_status after = Some ''unhealthy''
                     \<and> d_health_status before \<noteq> Some ''unhealthy''
                  then [(d_model_id d, d_model_source d, ''health_check_failed'')] else [])"
    using health_checks_edges[OF found] by blast
next
  fix i first second
  assume a: "Suc i < length envs
           \<and> deployment_get (health_checks s deployment_id envs ! i) deployment_id = Some first
           \<and> d_health_status first = Some ''unhealthy''
           \<and> deployment_get (health_checks s deployment_id envs ! Suc i) deployment_id
               = Some second
           \<and> d_health_status second = Some ''unhealthy''"
  then have lt: "Suc i < length envs" by simp
  from health_checks_edges[OF found lt]
  obtain before after where all:
    "deployment_get ((s # health_checks s deployment_id envs) ! Suc i) deployment_id = Some before
    \<and> deployment_get (health_checks s deployment_id envs ! Suc i) deployment_id = Some after
    \<and> d_health_status after \<in> {Some ''healthy'', Some ''unhealthy'', Some ''error''}
    \<and> d_last_health_check after = Some (he_now (envs ! Suc i))
    \<and> raised (health_checks s deployment_id envs ! Suc i)
        = raised ((s # health_checks s deployment_id envs) ! Suc i) @
          (if d_health_status after = Some ''unhealthy''
              \<and> d_health_status before \<noteq> Some ''unhealthy''
           then [(d_model_id d, d_model_source d, ''health_check_failed'')] else [])"
    by blast
  have b: "deployment_get ((s # health_checks s deployment_id envs) ! Suc i) deployment_id = Some before"
    using all by (rule conjunct1)
  have r: "raised (health_checks s deployment_id envs ! Suc i)
        = raised ((s # health_checks s deployment_id envs) ! Suc i) @
          (if d_health_status after = Some ''unhealthy''
              \<and> d_health_status before \<noteq> Some ''unhealthy''
           then [(d_model_id d, d_model_source d, ''health_check_failed'')] else [])"
    using all by (elim conjE)
  have "before = first" using a b by simp
  then show "raised (health_checks s deployment_id envs ! Suc i)
               = raised (health_checks s deployment_id envs ! i)"
    using r a by simp
next
  fix env
  show "\<exists>report after.
             fst (check_deployment_health env s deployment_id) = Inr report
           \<and> deployment_get (snd (check_deployment_health env s deployment_id)) deployment_id
               = Some after
           \<and> (hr_healthy report \<longleftrightarrow> d_health_status after = Some ''healthy'')
           \<and> hr_last_check report = Some (he_now env)"
    using found by (rule health_check_report)
qed

theorem health_check_failed_is_edge_triggered_witness:
  "deployment_get ex_deployed_state ''d1'' = Some ex_deployment
 \<and> d_health_status ex_deployment = Some ''healthy''
 \<and> Suc 0 < length ex_health_envs
 \<and> map (\<lambda>s. map_option d_health_status (deployment_get s ''d1''))
      (health_checks ex_deployed_state ''d1'' ex_health_envs)
      = [Some (Some ''unhealthy''), Some (Some ''unhealthy''), Some (Some ''healthy'')]
 \<and> map (\<lambda>s. map_option d_last_health_check (deployment_get s ''d1''))
      (health_checks ex_deployed_state ''d1'' ex_health_envs)
      = [Some (Some 20), Some (Some 25), Some (Some 30)]
 \<and> map raised (health_checks ex_deployed_state ''d1'' ex_health_envs)
      = [[(''org/m'', ''huggingface'', ''health_check_failed'')],
         [(''org/m'', ''huggingface'', ''health_check_failed'')],
         [(''org/m'', ''huggingface'', ''health_check_failed'')]]
 \<and> raised (health_checks ex_deployed_state ''d1'' ex_health_envs ! Suc 0)
      = raised (health_checks ex_deployed_state ''d1'' ex_health_envs ! 0)
 \<and> (\<exists>before after.
        deployment_get ((ex_deployed_state # health_checks ex_deployed_state ''d1'' ex_health_envs) ! 0)
          ''d1'' = Some before
      \<and> deployment_get (health_checks ex_deployed_state ''d1'' ex_health_envs ! 0) ''d1''
          = Some after
      \<and> d_health_status after \<in> {Some ''healthy'', Some ''unhealthy'', Some ''error''}
      \<and> d_last_health_check after = Some (he_now (ex_health_envs ! 0))
      \<and> raised (health_checks ex_deployed_state ''d1'' ex_health_envs ! 0)
          = raised ((ex_deployed_state # health_checks ex_deployed_state ''d1'' ex_health_envs) ! 0) @
            (if d_health_status after = Some ''unhealthy''
                \<and> d_health_status before \<noteq> Some ''unhealthy''
             then [(d_model_id ex_deployment, d_model_source ex_deployment,
                    ''health_check_failed'')] else []))"
proof -
  have len: "Suc 0 < length ex_health_envs" "0 < length ex_health_envs"
    by (simp_all add: ex_health_envs_def)
  have hs: "d_health_status ex_deployment = Some ''healthy''" by (simp add: ex_deployment_def)
  note th = health_check_failed_is_edge_triggered[OF ex_deployment_found, of ex_health_envs]
  have first: "\<exists>before after.
        deployment_get ((ex_deployed_state # health_checks ex_deployed_state ''d1'' ex_health_envs) ! 0)
          ''d1'' = Some before
      \<and> deployment_get (health_checks ex_deployed_state ''d1'' ex_health_envs ! 0) ''d1''
          = Some after
      \<and> d_health_status after \<in> {Some ''healthy'', Some ''unhealthy'', Some ''error''}
      \<and> d_last_health_check after = Some (he_now (ex_health_envs ! 0))
      \<and> raised (health_checks ex_deployed_state ''d1'' ex_health_envs ! 0)
          = raised ((ex_deployed_state # health_checks ex_deployed_state ''d1'' ex_health_envs) ! 0) @
            (if d_health_status after = Some ''unhealthy''
                \<and> d_health_status before \<noteq> Some ''unhealthy''
             then [(d_model_id ex_deployment, d_model_source ex_deployment,
                    ''health_check_failed'')] else [])"
    using th[THEN conjunct1, rule_format, OF len(2)] .
  have g0: "deployment_get (health_checks ex_deployed_state ''d1'' ex_health_envs ! 0) ''d1''
      = Some (ex_deployment\<lparr>d_health_status := Some ''unhealthy'',
                d_last_health_check := Some 20, d_updated_at := Some 20\<rparr>)"
    by (simp add: ex_health_defs)
  have g1: "deployment_get (health_checks ex_deployed_state ''d1'' ex_health_envs ! Suc 0) ''d1''
      = Some (ex_deployment\<lparr>d_health_status := Some ''unhealthy'',
                d_last_health_check := Some 25, d_updated_at := Some 25\<rparr>)"
    by (simp add: ex_health_defs)
  have again: "raised (health_checks ex_deployed_state ''d1'' ex_health_envs ! Suc 0)
      = raised (health_checks ex_deployed_state ''d1'' ex_health_envs ! 0)"
    using th[THEN conjunct2, THEN conjunct1, rule_format, of 0
        "ex_deployment\<lparr>d_health_status := Some ''unhealthy'',
                d_last_health_check := Some 20, d_updated_at := Some 20\<rparr>"
        "ex_deployment\<lparr>d_health_status := Some ''unhealthy'',
                d_last_health_check := Some 25, d_updated_at := Some 25\<rparr>"]
      len g0 g1 by simp
  show ?thesis
    using ex_deployment_found hs len(1) ex_health_run again first
    by (intro conjI) assumption+
qed


end
